theory Spec2Isabelle
  imports Main
begin

text \<open>
  A model of \<^verbatim>\<open>langchain_langgraph_starter.py\<close>: three agents, a classifier, a keyword
  extractor and a summarizer, each of which sends one prompt to a language model and
  parses the reply, are wired into a graph and run one after the other on a shared
  dictionary. The language model, the workflow framework, the file system and the
  console are outside the program: the model and the file system are parameters, the
  framework is modelled as far as the program uses it, and the console is a list of the
  print statements executed. Functions return the exception they raise or their value,
  together with the world they leave.
\<close>

section \<open>Text operations of the host language\<close>

text \<open>
  The program is Python. Its \<^verbatim>\<open>str\<close> values are modelled as \<^typ>\<open>string\<close>, a character
  standing for the code point of the same number; code points above 255 are outside the
  model. \<^verbatim>\<open>str.isspace\<close> holds below 256 exactly for the twelve code points listed.
\<close>

definition isspace :: "char \<Rightarrow> bool" where
  "isspace c = (c \<in> set [CHR 0x09, CHR 0x0A, CHR 0x0B, CHR 0x0C, CHR 0x0D,
                          CHR 0x1C, CHR 0x1D, CHR 0x1E, CHR 0x1F, CHR 0x20,
                          CHR 0x85, CHR 0xA0])"

text \<open>\<^verbatim>\<open>s.strip()\<close>: leading and trailing whitespace removed.\<close>

definition strip :: "string \<Rightarrow> string" where
  "strip s = rev (dropWhile isspace (rev (dropWhile isspace s)))"

text \<open>
  \<^verbatim>\<open>s.split(sep)\<close> for a separator of one character: every occurrence of the separator
  ends a piece, empty pieces are kept, and the result is never empty
  (\<^verbatim>\<open>"".split(",") == [""]\<close>).
\<close>

fun str_split :: "char \<Rightarrow> string \<Rightarrow> string list" where
  "str_split sep [] = [[]]"
| "str_split sep (c # cs) =
     (if c = sep then [] # str_split sep cs
      else (case str_split sep cs of
              [] \<Rightarrow> [[c]]
            | piece # pieces \<Rightarrow> (c # piece) # pieces))"

text \<open>\<^verbatim>\<open>sep.join(xs)\<close>.\<close>

fun str_join :: "string \<Rightarrow> string list \<Rightarrow> string" where
  "str_join sep [] = []"
| "str_join sep [x] = x"
| "str_join sep (x # y # zs) = x @ sep @ str_join sep (y # zs)"


section \<open>Shared state of the team\<close>

text \<open>
  \<^verbatim>\<open>TeamState\<close> is a \<^verbatim>\<open>TypedDict\<close>: a dictionary with five typed keys, any of which
  may be missing. A field is \<^const>\<open>None\<close> when its key is missing. The same type is used for
  the partial dictionaries the agents return.
\<close>

record TeamState =
  original_text :: "string option"
  category :: "string option"
  important_terms :: "string list option"
  summary :: "string option"
  current_agent :: "string option"

definition no_keys :: TeamState where
  "no_keys = \<lparr>original_text = None, category = None, important_terms = None,
              summary = None, current_agent = None\<rparr>"

text \<open>
  The framework writes the dictionary a node returns into the state: a key of the update
  replaces the value of that key, every other key keeps its value.
\<close>

definition apply_update :: "TeamState \<Rightarrow> TeamState \<Rightarrow> TeamState" where
  "apply_update state upd =
     \<lparr>original_text = (case original_text upd of None \<Rightarrow> original_text state | Some v \<Rightarrow> Some v),
      category = (case category upd of None \<Rightarrow> category state | Some v \<Rightarrow> Some v),
      important_terms =
        (case important_terms upd of None \<Rightarrow> important_terms state | Some v \<Rightarrow> Some v),
      summary = (case summary upd of None \<Rightarrow> summary state | Some v \<Rightarrow> Some v),
      current_agent =
        (case current_agent upd of None \<Rightarrow> current_agent state | Some v \<Rightarrow> Some v)\<rparr>"


section \<open>Errors, the model client and the world\<close>

text \<open>
  An exception the program can meet is a value:
  \<^item> \<open>KeyError k\<close>: \<^verbatim>\<open>d[k]\<close> on a dictionary without the key \<open>k\<close>;
  \<^item> \<open>ModelError m\<close>: raised by \<^verbatim>\<open>llm.invoke\<close>, with its message;
  \<^item> \<open>Failure m\<close>: an exception of class \<^verbatim>\<open>Exception\<close> raised by the file system or by
    the renderer of the graph image, with its message;
  \<^item> \<open>ValueError n\<close>: the framework meets a node name \<open>n\<close> it does not know;
  \<^item> \<open>GraphRecursionError\<close>: the framework's limit of steps is reached;
  \<^item> \<open>Interrupt n\<close>: an exception that is not of class \<^verbatim>\<open>Exception\<close>, named \<open>n\<close>
    (\<^verbatim>\<open>KeyboardInterrupt\<close>, \<^verbatim>\<open>SystemExit\<close>), raised while the file system or the
    renderer is at work.

  \<^verbatim>\<open>except Exception\<close> catches every one of them but the last.
\<close>

datatype error =
    KeyError string
  | ModelError string
  | Failure string
  | ValueError string
  | GraphRecursionError
  | Interrupt string

definition is_Exception :: "error \<Rightarrow> bool" where
  "is_Exception err = (case err of Interrupt n \<Rightarrow> False | _ \<Rightarrow> True)"

text \<open>
  The model client \<^verbatim>\<open>llm\<close> is an external collaborator. One call either raises or
  returns a message whose content is a string. Its answer may depend on the prompt and
  on the prompts sent before, so the client is a function of both.
\<close>

datatype reply = Raises string | Content string

type_synonym llm = "string list \<Rightarrow> string \<Rightarrow> reply"

text \<open>
  What a run leaves outside its return value:
  \<^item> \<open>calls\<close>: the prompts sent to the model client, oldest first;
  \<^item> \<open>console\<close>: the \<^verbatim>\<open>print\<close> statements executed, each as its line in the source file
    and the values it interpolates, strings or a caught exception (the fixed text of a
    message is not modelled);
  \<^item> \<open>saved\<close>: what the file system was made to hold, as path and content, oldest
    first: the last entry of a path is the content of that file;
  \<^item> \<open>steps\<close>: the nodes the framework has run, each with what it returned.
\<close>

datatype message = Print nat "string list" | PrintError nat error

record world =
  calls :: "string list"
  console :: "message list"
  saved :: "(string \<times> string) list"
  steps :: "(string \<times> (error + TeamState)) list"

definition fresh :: world where
  "fresh = \<lparr>calls = [], console = [], saved = [], steps = []\<rparr>"

definition print_out :: "message list \<Rightarrow> world \<Rightarrow> world" where
  "print_out ms w = w\<lparr>console := console w @ ms\<rparr>"

definition sent :: "string \<Rightarrow> world \<Rightarrow> world" where
  "sent prompt w = w\<lparr>calls := calls w @ [prompt]\<rparr>"

definition holds :: "string \<Rightarrow> string \<Rightarrow> world \<Rightarrow> world" where
  "holds path content w = w\<lparr>saved := saved w @ [(path, content)]\<rparr>"


section \<open>The three agents\<close>

subsection \<open>Prompts\<close>

text \<open>
  The prompts are the f-strings of the source, line by line; the text between the
  triple quotes starts with a line break and ends with the four spaces before the
  closing quotes.
\<close>

definition classifier_prompt :: "string \<Rightarrow> string" where
  "classifier_prompt text = concat
     [''\<newline>'',
      ''    You are a text classification expert.\<newline>'',
      ''    Your only task is to identify the category of the text.\<newline>'',
      ''\<newline>'',
      ''    Classify this text into ONE of these categories:\<newline>'',
      ''    - News\<newline>'',
      ''    - Personal Blog\<newline>'',
      ''    - Technical Article\<newline>'',
      ''    - Marketing\<newline>'',
      ''    - Educational\<newline>'',
      ''    - Other\<newline>'',
      ''\<newline>'',
      ''    Text to analyze:\<newline>'',
      ''    '', text, ''\<newline>'',
      ''\<newline>'',
      ''    Reply only with the category:\<newline>'',
      ''    '']"

definition keywords_prompt :: "string \<Rightarrow> string \<Rightarrow> string" where
  "keywords_prompt cat text = concat
     [''\<newline>'',
      ''    You are a keyword analysis expert.\<newline>'',
      ''    Your task is to find the 5 most important keywords from the text.\<newline>'',
      ''\<newline>'',
      ''    Category already identified: '', cat, ''\<newline>'',
      ''\<newline>'',
      ''    Text to analyze:\<newline>'',
      ''    '', text, ''\<newline>'',
      ''\<newline>'',
      ''    Extract exactly 5 important keywords, separated by commas.\<newline>'',
      ''    Focus on: main concepts, important names, technologies, places.\<newline>'',
      ''\<newline>'',
      ''    Keywords:\<newline>'',
      ''    '']"

definition summarizer_prompt :: "string \<Rightarrow> string list \<Rightarrow> string \<Rightarrow> string" where
  "summarizer_prompt cat terms text = concat
     [''\<newline>'',
      ''    You are an expert in creating concise summaries.\<newline>'',
      ''    Your task is to summarize the text in maximum 15 words.\<newline>'',
      ''\<newline>'',
      ''    Information from other agents:\<newline>'',
      ''    - Category: '', cat, ''\<newline>'',
      ''    - Keywords: '', str_join '', '' terms, ''\<newline>'',
      ''\<newline>'',
      ''    Text to summarize:\<newline>'',
      ''    '', text, ''\<newline>'',
      ''\<newline>'',
      ''    Create a summary of maximum 15 words that captures the essence:\<newline>'',
      ''    '']"

subsection \<open>Agents\<close>

text \<open>
  An agent prints two lines, builds its prompt from the state (a missing key raises
  \<open>KeyError\<close>, keys being read in the order of the f-string), calls the model client
  once, parses the content of the reply, prints the parsed value and returns a
  dictionary of two keys.
\<close>

definition agent_classifier :: "llm \<Rightarrow> world \<Rightarrow> TeamState \<Rightarrow> (error + TeamState) \<times> world" where
  "agent_classifier llm w state =
     (let w1 = print_out [Print 102 [], Print 103 []] w in
      case original_text state of
        None \<Rightarrow> (Inl (KeyError ''original_text''), w1)
      | Some text \<Rightarrow>
          (let prompt = classifier_prompt text in
           case llm (calls w1) prompt of
             Raises m \<Rightarrow> (Inl (ModelError m), sent prompt w1)
           | Content c \<Rightarrow>
               (let cat = strip c in
                (Inr (no_keys\<lparr>category := Some cat, current_agent := Some ''Classifier''\<rparr>),
                 print_out [Print 128 [cat]] (sent prompt w1)))))"

definition agent_keywords :: "llm \<Rightarrow> world \<Rightarrow> TeamState \<Rightarrow> (error + TeamState) \<times> world" where
  "agent_keywords llm w state =
     (let w1 = print_out [Print 143 [], Print 144 []] w in
      case category state of
        None \<Rightarrow> (Inl (KeyError ''category''), w1)
      | Some cat \<Rightarrow>
          (case original_text state of
             None \<Rightarrow> (Inl (KeyError ''original_text''), w1)
           | Some text \<Rightarrow>
               (let prompt = keywords_prompt cat text in
                case llm (calls w1) prompt of
                  Raises m \<Rightarrow> (Inl (ModelError m), sent prompt w1)
                | Content c \<Rightarrow>
                    (let keywords_text = strip c;
                         keywords = map strip (str_split (CHR '','') keywords_text) in
                     (Inr (no_keys\<lparr>important_terms := Some keywords,
                                   current_agent := Some ''Keywords''\<rparr>),
                      print_out [Print 167 keywords] (sent prompt w1))))))"

definition agent_summarizer :: "llm \<Rightarrow> world \<Rightarrow> TeamState \<Rightarrow> (error + TeamState) \<times> world" where
  "agent_summarizer llm w state =
     (let w1 = print_out [Print 182 [], Print 183 []] w in
      case category state of
        None \<Rightarrow> (Inl (KeyError ''category''), w1)
      | Some cat \<Rightarrow>
          (case important_terms state of
             None \<Rightarrow> (Inl (KeyError ''important_terms''), w1)
           | Some terms \<Rightarrow>
               (case original_text state of
                  None \<Rightarrow> (Inl (KeyError ''original_text''), w1)
                | Some text \<Rightarrow>
                    (let prompt = summarizer_prompt cat terms text in
                     case llm (calls w1) prompt of
                       Raises m \<Rightarrow> (Inl (ModelError m), sent prompt w1)
                     | Content c \<Rightarrow>
                         (let s = strip c in
                          (Inr (no_keys\<lparr>summary := Some s,
                                        current_agent := Some ''Summarizer''\<rparr>),
                           print_out [Print 204 [s]] (sent prompt w1)))))))"


section \<open>The workflow framework\<close>

text \<open>
  \<^verbatim>\<open>StateGraph\<close>, \<^verbatim>\<open>compile\<close> and \<^verbatim>\<open>invoke\<close> belong to a third-party framework. They are
  modelled as far as this program uses them: nodes are functions from the state to an
  update, every node has at most one outgoing edge (the first one declared for it),
  an update replaces the values of its keys, and an exception raised by a node leaves
  \<^verbatim>\<open>invoke\<close> at once. The framework bounds the number of steps of one run (25 unless
  configured) and raises when the bound is reached.
\<close>

type_synonym node = "world \<Rightarrow> TeamState \<Rightarrow> (error + TeamState) \<times> world"

record StateGraph =
  nodes :: "(string \<times> node) list"
  entry_point :: "string option"
  edges :: "(string \<times> string) list"

definition END :: string where
  "END = ''__end__''"

definition recursion_limit :: nat where
  "recursion_limit = 25"

definition empty_graph :: StateGraph where
  "empty_graph = \<lparr>nodes = [], entry_point = None, edges = []\<rparr>"

definition add_node :: "string \<Rightarrow> node \<Rightarrow> StateGraph \<Rightarrow> StateGraph" where
  "add_node name f g = g\<lparr>nodes := nodes g @ [(name, f)]\<rparr>"

definition set_entry_point :: "string \<Rightarrow> StateGraph \<Rightarrow> StateGraph" where
  "set_entry_point name g = g\<lparr>entry_point := Some name\<rparr>"

definition add_edge :: "string \<Rightarrow> string \<Rightarrow> StateGraph \<Rightarrow> StateGraph" where
  "add_edge a b g = g\<lparr>edges := edges g @ [(a, b)]\<rparr>"

text \<open>The step relation of a graph: its declared edges.\<close>

definition step :: "StateGraph \<Rightarrow> string \<Rightarrow> string \<Rightarrow> bool" where
  "step g n n' = ((n, n') \<in> set (edges g))"

definition ran :: "string \<Rightarrow> error + TeamState \<Rightarrow> world \<Rightarrow> world" where
  "ran n r w = w\<lparr>steps := steps w @ [(n, r)]\<rparr>"

fun run_nodes :: "nat \<Rightarrow> StateGraph \<Rightarrow> string \<Rightarrow> world \<Rightarrow> TeamState
                  \<Rightarrow> (error + TeamState) \<times> world" where
  "run_nodes 0 g n w state = (Inl GraphRecursionError, w)"
| "run_nodes (Suc k) g n w state =
     (if n = END then (Inr state, w)
      else case map_of (nodes g) n of
             None \<Rightarrow> (Inl (ValueError n), w)
           | Some f \<Rightarrow>
               (case f w state of
                  (Inl e, w') \<Rightarrow> (Inl e, ran n (Inl e) w')
                | (Inr upd, w') \<Rightarrow>
                    (case map_of (edges g) n of
                       None \<Rightarrow> (Inr (apply_update state upd), ran n (Inr upd) w')
                     | Some n' \<Rightarrow>
                         run_nodes k g n' (ran n (Inr upd) w') (apply_update state upd))))"

definition invoke :: "StateGraph \<Rightarrow> world \<Rightarrow> TeamState \<Rightarrow> (error + TeamState) \<times> world" where
  "invoke g w input =
     (case entry_point g of
        None \<Rightarrow> (Inl (ValueError []), w)
      | Some n \<Rightarrow> run_nodes recursion_limit g n w (apply_update no_keys input))"


section \<open>The team\<close>

definition create_agents_team :: "llm \<Rightarrow> world \<Rightarrow> StateGraph \<times> world" where
  "create_agents_team llm w =
     (let w1 = print_out [Print 216 []] w;
          g0 = empty_graph;
          g1 = add_node ''classifier'' (agent_classifier llm) g0;
          g2 = add_node ''keyword_agent'' (agent_keywords llm) g1;
          g3 = add_node ''summarizer'' (agent_summarizer llm) g2;
          g4 = set_entry_point ''classifier'' g3;
          g5 = add_edge ''classifier'' ''keyword_agent'' g4;
          g6 = add_edge ''keyword_agent'' ''summarizer'' g5;
          g7 = add_edge ''summarizer'' END g6;
          team = g7
      in (team, print_out [Print 234 []] w1))"

text \<open>
  The specification's \<open>run\<close>: the team is assembled and invoked on a dictionary that
  holds the input text, as \<^verbatim>\<open>test_different_texts\<close> does for each of its texts.
\<close>

definition input_of :: "string \<Rightarrow> TeamState" where
  "input_of text = no_keys\<lparr>original_text := Some text\<rparr>"

definition run :: "llm \<Rightarrow> world \<Rightarrow> string \<Rightarrow> (error + TeamState) \<times> world" where
  "run llm w text = (case create_agents_team llm w of (team, w1) \<Rightarrow> invoke team w1 (input_of text))"


section \<open>Export of the graph image\<close>

text \<open>
  The file system and the renderer are external. \<open>env\<close> holds what they answer:
  \<^item> \<open>makedirs\<close> is \<open>Some err\<close> when \<^verbatim>\<open>os.makedirs\<close> raises \<open>err\<close>;
  \<^item> \<open>draw_mermaid_png\<close> is \<open>Inl err\<close> when rendering raises \<open>err\<close> and \<open>Inr png\<close> when it
    returns the image;
  \<^item> \<open>open_file\<close> is \<open>Some err\<close> when \<^verbatim>\<open>open(filepath, "wb")\<close> raises \<open>err\<close>; when it
    returns, the file exists and is empty;
  \<^item> \<open>write_file\<close> is \<open>Some (err, left)\<close> when writing the image or closing the file
    raises \<open>err\<close>, the file being left with the content \<open>left\<close>; when both return,
    the file holds the image.
\<close>

record env =
  OUTPUT_DIR :: string
  makedirs :: "error option"
  draw_mermaid_png :: "StateGraph \<Rightarrow> error + string"
  open_file :: "error option"
  write_file :: "(error \<times> string) option"

text \<open>\<^verbatim>\<open>os.path.join\<close> of two components, on a POSIX system.\<close>

definition path_join :: "string \<Rightarrow> string \<Rightarrow> string" where
  "path_join a b =
     (if b \<noteq> [] \<and> hd b = CHR ''/'' then b
      else if a = [] \<or> last a = CHR ''/'' then a @ b
      else a @ ''/'' @ b)"

text \<open>
  The body of the \<^verbatim>\<open>try\<close> statement: rendering, opening the file, writing it, the print
  of line 70. It returns the path or the exception raised.
\<close>

definition export :: "env \<Rightarrow> StateGraph \<Rightarrow> string \<Rightarrow> world \<Rightarrow> (error + string) \<times> world" where
  "export e team filepath w =
     (case draw_mermaid_png e team of
        Inl err \<Rightarrow> (Inl err, w)
      | Inr graph_png \<Rightarrow>
          (case open_file e of
             Some err \<Rightarrow> (Inl err, w)
           | None \<Rightarrow>
               (let w1 = holds filepath [] w in
                case write_file e of
                  Some (err, left) \<Rightarrow> (Inl err, holds filepath left w1)
                | None \<Rightarrow>
                    (Inr filepath,
                     print_out [Print 70 [filepath]] (holds filepath graph_png w1)))))"

text \<open>
  \<^verbatim>\<open>os.makedirs\<close> is called before the \<^verbatim>\<open>try\<close> statement, so what it raises leaves the
  function. An exception of the body is caught when it is of class \<^verbatim>\<open>Exception\<close>:
  line 73 prints it and the function returns \<^verbatim>\<open>None\<close>. Any other exception leaves the
  function.
\<close>

definition save_graph_visualization ::
    "env \<Rightarrow> StateGraph \<Rightarrow> string \<Rightarrow> world \<Rightarrow> (error + string option) \<times> world" where
  "save_graph_visualization e team filename w =
     (case makedirs e of
        Some err \<Rightarrow> (Inl err, w)
      | None \<Rightarrow>
          (let filepath = path_join (OUTPUT_DIR e) filename;
               w1 = print_out [Print 65 []] w in
           case export e team filepath w1 of
             (Inr saved_path, w2) \<Rightarrow> (Inr (Some saved_path), w2)
           | (Inl err, w2) \<Rightarrow>
               (if is_Exception err then (Inr None, print_out [PrintError 73 err] w2)
                else (Inl err, w2))))"

definition sample_text :: string where
  "sample_text = concat
     [''\<newline>'',
      ''    OpenAI launched ChatGPT-4, a new version of its language model\<newline>'',
      ''    that promises to revolutionize how we interact with artificial intelligence.\<newline>'',
      ''    The model presents significant improvements in reasoning, creativity and\<newline>'',
      ''    multimodal capabilities, being able to process both text and images.\<newline>'',
      ''    The company expects this technology to positively impact various sectors,\<newline>'',
      ''    from education to software development.\<newline>'',
      ''    '']"

text \<open>The four lines of the final report read the result by key.\<close>

definition report :: "TeamState \<Rightarrow> world \<Rightarrow> (error + TeamState) \<times> world" where
  "report result w =
     (let w1 = print_out [Print 275 [], Print 276 [], Print 277 []] w in
      case category result of
        None \<Rightarrow> (Inl (KeyError ''category''), w1)
      | Some cat \<Rightarrow>
          (let w2 = print_out [Print 278 [cat]] w1 in
           case important_terms result of
             None \<Rightarrow> (Inl (KeyError ''important_terms''), w2)
           | Some terms \<Rightarrow>
               (let w3 = print_out [Print 279 [str_join '', '' terms]] w2 in
                case summary result of
                  None \<Rightarrow> (Inl (KeyError ''summary''), w3)
                | Some s \<Rightarrow>
                    (let w4 = print_out [Print 280 [s]] w3 in
                     case current_agent result of
                       None \<Rightarrow> (Inl (KeyError ''current_agent''), w4)
                     | Some a \<Rightarrow>
                         (Inr result, print_out [Print 281 [a], Print 282 []] w4)))))"

definition test_agents_team :: "env \<Rightarrow> llm \<Rightarrow> world \<Rightarrow> (error + TeamState) \<times> world" where
  "test_agents_team e llm w =
     (let w1 = print_out [Print 246 [], Print 247 [], Print 248 []] w in
      case create_agents_team llm w1 of
        (team, w2) \<Rightarrow>
          (case save_graph_visualization e team ''agents_workflow.png'' w2 of
             (Inl err, w3) \<Rightarrow> (Inl err, w3)
           | (Inr _, w3) \<Rightarrow>
               (let w4 = print_out [Print 266 [], Print 267 [strip sample_text],
                                    Print 268 [], Print 269 []] w3 in
                case invoke team w4
                       (no_keys\<lparr>original_text := Some sample_text,
                                current_agent := Some ''Starting''\<rparr>) of
                  (Inl err, w5) \<Rightarrow> (Inl err, w5)
                | (Inr result, w5) \<Rightarrow> report result w5)))"


section \<open>The other test and the entry point\<close>

text \<open>
  \<^verbatim>\<open>test_different_texts\<close> assembles the team once and invokes it on three texts, in the
  order of the dictionary. Nothing in the loop catches an exception: the first one leaves
  the function. After each run the three lines of the report read the result by key.
\<close>

definition texts :: "(string \<times> string) list" where
  "texts =
     [(''Personal Blog'', concat
         [''Today I woke up early and went running in the park. The day was beauti'',
          ''ful and I managed to do 5km. I feel great after the exercise and ready'',
          '' for another productive day of work.'']),
      (''News'', concat
         [''The Brazilian government announced new economic measures today to comb'',
          ''at inflation. The Central Bank is expected to raise the Selic rate at '',
          ''the next Copom meeting.'']),
      (''Technical Article'', concat
         [''Machine Learning is a subfield of artificial intelligence that allows '',
          ''systems to learn automatically without being explicitly programmed. Al'',
          ''gorithms like Random Forest and Neural Networks are widely used.''])]"

fun test_different_texts_loop :: "StateGraph \<Rightarrow> (string \<times> string) list \<Rightarrow> world \<Rightarrow> (error + unit) \<times> world" where
  "test_different_texts_loop team [] w = (Inr (), w)"
| "test_different_texts_loop team ((text_type, text) # rest) w =
     (let w1 = print_out [Print 302 [text_type], Print 303 [take 60 text], Print 304 []] w in
      case invoke team w1 (no_keys\<lparr>original_text := Some text\<rparr>) of
        (Inl err, w2) \<Rightarrow> (Inl err, w2)
      | (Inr result, w2) \<Rightarrow>
          (case category result of
             None \<Rightarrow> (Inl (KeyError ''category''), w2)
           | Some cat \<Rightarrow>
               (let w3 = print_out [Print 308 [cat]] w2 in
                case important_terms result of
                  None \<Rightarrow> (Inl (KeyError ''important_terms''), w3)
                | Some terms \<Rightarrow>
                    (let w4 = print_out [Print 309 [str_join '', '' (take 3 terms)]] w3 in
                     case summary result of
                       None \<Rightarrow> (Inl (KeyError ''summary''), w4)
                     | Some s \<Rightarrow> test_different_texts_loop team rest (print_out [Print 310 [s]] w4)))))"

definition test_different_texts :: "llm \<Rightarrow> world \<Rightarrow> (error + unit) \<times> world" where
  "test_different_texts llm w =
     (case create_agents_team llm w of
        (team, w1) \<Rightarrow>
          test_different_texts_loop team texts (print_out [Print 297 [], Print 298 [], Print 299 []] w1))"

text \<open>
  \<^verbatim>\<open>main\<close> runs \<^verbatim>\<open>test_different_texts\<close> inside \<^verbatim>\<open>try\<close>: an exception of class
  \<^verbatim>\<open>Exception\<close> is printed, with two lines of advice, and \<^verbatim>\<open>main\<close> returns; any
  other exception leaves \<^verbatim>\<open>main\<close>.
\<close>

definition main :: "llm \<Rightarrow> world \<Rightarrow> (error + unit) \<times> world" where
  "main llm w =
     (let w1 = print_out [Print 320 [], Print 321 [], Print 322 []] w in
      case test_different_texts llm w1 of
        (Inl err, w2) \<Rightarrow>
          (if is_Exception err
           then (Inr (), print_out [PrintError 337 err, Print 338 [], Print 339 []] w2)
           else (Inl err, w2))
      | (Inr _, w2) \<Rightarrow>
          (Inr (), print_out [Print 331 [], Print 332 [], Print 333 [], Print 334 []] w2))"


section \<open>Observations and stub clients\<close>

text \<open>
  A stub client with canned replies: the \<open>i\<close>-th call receives the \<open>i\<close>-th entry of the
  list, whatever the prompt, and a call beyond the list raises.
\<close>

definition canned :: "reply list \<Rightarrow> llm" where
  "canned rs history prompt =
     (if length history < length rs then rs ! length history else Raises ''no reply left'')"

text \<open>The keys a dictionary holds, in the order of the class declaration.\<close>

definition keys :: "TeamState \<Rightarrow> string list" where
  "keys d =
     (case original_text d of None \<Rightarrow> [] | Some _ \<Rightarrow> [''original_text'']) @
     (case category d of None \<Rightarrow> [] | Some _ \<Rightarrow> [''category'']) @
     (case important_terms d of None \<Rightarrow> [] | Some _ \<Rightarrow> [''important_terms'']) @
     (case summary d of None \<Rightarrow> [] | Some _ \<Rightarrow> [''summary'']) @
     (case current_agent d of None \<Rightarrow> [] | Some _ \<Rightarrow> [''current_agent''])"

text \<open>
  What is observed of an outcome: the value returned or the exception raised, the
  prompts sent to the model client, and the nodes run.
\<close>

definition observe :: "(error + TeamState) \<times> world
    \<Rightarrow> (error + TeamState) \<times> string list \<times> (string \<times> (error + TeamState)) list" where
  "observe out = (fst out, calls (snd out), steps (snd out))"

text \<open>
  The three agents written out one after the other, from a history of calls and a log
  of steps. Lemma \<open>invoke_team\<close> below shows that invoking the team observes exactly this.
\<close>

definition unfolded :: "llm \<Rightarrow> string list \<Rightarrow> (string \<times> (error + TeamState)) list \<Rightarrow> string
    \<Rightarrow> (error + TeamState) \<times> string list \<times> (string \<times> (error + TeamState)) list" where
  "unfolded llm history log t =
     (let p1 = classifier_prompt t in
      case llm history p1 of
        Raises m \<Rightarrow>
          (Inl (ModelError m), history @ [p1],
           log @ [(''classifier'', Inl (ModelError m))])
      | Content r1 \<Rightarrow>
         (let u1 = no_keys\<lparr>category := Some (strip r1), current_agent := Some ''Classifier''\<rparr>;
              p2 = keywords_prompt (strip r1) t in
          case llm (history @ [p1]) p2 of
            Raises m \<Rightarrow>
              (Inl (ModelError m), history @ [p1, p2],
               log @ [(''classifier'', Inr u1), (''keyword_agent'', Inl (ModelError m))])
          | Content r2 \<Rightarrow>
             (let ts = map strip (str_split (CHR '','') (strip r2));
                  u2 = no_keys\<lparr>important_terms := Some ts, current_agent := Some ''Keywords''\<rparr>;
                  p3 = summarizer_prompt (strip r1) ts t in
              case llm (history @ [p1, p2]) p3 of
                Raises m \<Rightarrow>
                  (Inl (ModelError m), history @ [p1, p2, p3],
                   log @ [(''classifier'', Inr u1), (''keyword_agent'', Inr u2),
                          (''summarizer'', Inl (ModelError m))])
              | Content r3 \<Rightarrow>
                  (let u3 = no_keys\<lparr>summary := Some (strip r3),
                                    current_agent := Some ''Summarizer''\<rparr> in
                   (Inr \<lparr>original_text = Some t, category = Some (strip r1),
                         important_terms = Some ts, summary = Some (strip r3),
                         current_agent = Some ''Summarizer''\<rparr>,
                    history @ [p1, p2, p3],
                    log @ [(''classifier'', Inr u1), (''keyword_agent'', Inr u2),
                           (''summarizer'', Inr u3)])))))"

text \<open>The six labels the classifier's prompt lists.\<close>

definition category_labels :: "string list" where
  "category_labels = [''News'', ''Personal Blog'', ''Technical Article'', ''Marketing'',
                      ''Educational'', ''Other'']"

text \<open>
  The number of words of a text, as the specification counts them for the bound on the
  summary: the maximal runs of characters that are not whitespace. The flag tells
  whether the character before was inside a word.
\<close>

fun count_words :: "bool \<Rightarrow> string \<Rightarrow> nat" where
  "count_words inside [] = 0"
| "count_words inside (c # cs) =
     (if isspace c then count_words False cs
      else (if inside then 0 else 1) + count_words True cs)"

definition word_count :: "string \<Rightarrow> nat" where
  "word_count s = count_words False s"

text \<open>
  The steps an outcome added to those of the world it started from, and three readings
  of such a list of steps: the values written to \<open>current_agent\<close>, in order; the keys
  each step wrote (none when the node raised); and the number of steps that wrote a
  given key.
\<close>

type_synonym log = "(string \<times> (error + TeamState)) list"

definition new_steps :: "world \<Rightarrow> (error + TeamState) \<times> world \<Rightarrow> log" where
  "new_steps w out = drop (length (steps w)) (steps (snd out))"

definition agents_seen :: "log \<Rightarrow> string list" where
  "agents_seen l =
     concat (map (\<lambda>(n, r). case r of
                     Inl e \<Rightarrow> []
                   | Inr upd \<Rightarrow> (case current_agent upd of None \<Rightarrow> [] | Some a \<Rightarrow> [a])) l)"

definition keys_written :: "log \<Rightarrow> (string \<times> string list) list" where
  "keys_written l = map (\<lambda>(n, r). (n, case r of Inl e \<Rightarrow> [] | Inr upd \<Rightarrow> keys upd)) l"

definition writes :: "string \<Rightarrow> log \<Rightarrow> nat" where
  "writes k l = length (filter (\<lambda>(n, ks). k \<in> set ks) (keys_written l))"

text \<open>
  The body of the \<^verbatim>\<open>try\<close> statement raises \<open>err\<close>: while rendering, while opening the
  file, or while writing it.
\<close>

definition export_raises :: "env \<Rightarrow> StateGraph \<Rightarrow> error \<Rightarrow> bool" where
  "export_raises e team err =
     (case draw_mermaid_png e team of
        Inl x \<Rightarrow> x = err
      | Inr graph_png \<Rightarrow>
          (case open_file e of
             Some x \<Rightarrow> x = err
           | None \<Rightarrow> (case write_file e of Some (x, left) \<Rightarrow> x = err | None \<Rightarrow> False)))"


section \<open>Auxiliary facts\<close>

lemma apply_update_no_keys [simp]: "apply_update no_keys input = input"
  by (cases input) (simp add: apply_update_def no_keys_def split: option.splits)

lemma team_graph:
  "fst (create_agents_team llm w) =
     \<lparr>nodes = [(''classifier'', agent_classifier llm),
               (''keyword_agent'', agent_keywords llm),
               (''summarizer'', agent_summarizer llm)],
      entry_point = Some ''classifier'',
      edges = [(''classifier'', ''keyword_agent''),
               (''keyword_agent'', ''summarizer''),
               (''summarizer'', END)]\<rparr>"
  by (simp add: create_agents_team_def Let_def empty_graph_def add_node_def add_edge_def
      set_entry_point_def)

lemma team_world:
  "calls (snd (create_agents_team llm w)) = calls w"
  "steps (snd (create_agents_team llm w)) = steps w"
  by (simp_all add: create_agents_team_def Let_def print_out_def)

lemma invoke_team:
  assumes "original_text input = Some t"
  shows "observe (invoke (fst (create_agents_team llm w0)) w input) =
           unfolded llm (calls w) (steps w) t"
  using assms
  by (simp add: observe_def unfolded_def team_graph invoke_def recursion_limit_def
      numeral_eq_Suc END_def agent_classifier_def agent_keywords_def agent_summarizer_def
      Let_def print_out_def sent_def ran_def apply_update_def no_keys_def
      split: reply.splits)

lemma run_unfolded: "observe (run llm w t) = unfolded llm (calls w) (steps w) t"
proof -
  have t: "original_text (input_of t) = Some t"
    by (simp add: input_of_def)
  have "run llm w t =
          invoke (fst (create_agents_team llm w)) (snd (create_agents_team llm w)) (input_of t)"
    by (simp add: run_def case_prod_beta)
  then show ?thesis
    by (simp only: invoke_team [OF t] team_world)
qed

text \<open>
  Invoking the team on any dictionary that holds the input text observes what
  \<^const>\<open>run\<close> on that text observes: the other keys of the input are overwritten before
  they are read.
\<close>

lemma other_input_keys_do_not_matter:
  assumes "original_text input = Some t"
  shows "observe (invoke (fst (create_agents_team llm w0)) w input) = observe (run llm w t)"
  by (simp only: invoke_team [OF assms] run_unfolded)

lemma strip_Technical_Article: "strip ''Technical Article'' = ''Technical Article''"
  by (simp add: strip_def isspace_def)

lemma keywords_of_second_reply:
  "map strip (str_split (CHR '','') (strip ''AI, GPT-4, reasoning, images, education'')) =
     [''AI'', ''GPT-4'', ''reasoning'', ''images'', ''education'']"
  by (simp add: strip_def isspace_def)

lemma strip_third_reply:
  "strip ''OpenAI's new model improves reasoning and multimodal AI capabilities.'' =
     ''OpenAI's new model improves reasoning and multimodal AI capabilities.''"
  by (simp add: strip_def isspace_def)

lemma str_split_not_Nil [simp]: "str_split sep s \<noteq> []"
  by (induction s) (auto split: list.splits)

lemma length_str_split:
  "length (str_split sep s) = Suc (length (filter (\<lambda>c. c = sep) s))"
  by (induction s) (auto split: list.splits)

lemma filter_dropWhile:
  "(\<And>x. Q x \<Longrightarrow> \<not> P x) \<Longrightarrow> filter P (dropWhile Q xs) = filter P xs"
  by (induction xs) auto

lemma commas_strip:
  "length (filter (\<lambda>c. c = CHR '','') (strip s)) = length (filter (\<lambda>c. c = CHR '','') s)"
proof -
  have ns: "\<And>x. isspace x \<Longrightarrow> \<not> x = CHR '',''"
    by (auto simp: isspace_def)
  have "length (filter (\<lambda>c. c = CHR '','') (strip s)) =
        length (filter (\<lambda>c. c = CHR '','') (dropWhile isspace (rev (dropWhile isspace s))))"
    by (simp add: strip_def rev_filter [symmetric])
  also have "\<dots> = length (filter (\<lambda>c. c = CHR '','') (rev (dropWhile isspace s)))"
    by (simp add: filter_dropWhile [of isspace, OF ns])
  also have "\<dots> = length (filter (\<lambda>c. c = CHR '','') s)"
    by (simp add: rev_filter [symmetric] filter_dropWhile [of isspace, OF ns])
  finally show ?thesis .
qed

lemma observed_parts:
  assumes "observe out = (r, c, steps w @ l)"
  shows "fst out = r" "calls (snd out) = c" "new_steps w out = l"
  using assms by (simp_all add: observe_def new_steps_def)

lemma classifier_update:
  assumes "fst (agent_classifier llm w state) = Inr upd"
  shows "\<exists>c. upd = no_keys\<lparr>category := Some c, current_agent := Some ''Classifier''\<rparr>"
  using assms by (auto simp: agent_classifier_def Let_def split: option.splits reply.splits)

lemma keywords_update:
  assumes "fst (agent_keywords llm w state) = Inr upd"
  shows "\<exists>ts. upd = no_keys\<lparr>important_terms := Some ts, current_agent := Some ''Keywords''\<rparr>"
  using assms by (auto simp: agent_keywords_def Let_def split: option.splits reply.splits)

lemma summarizer_update:
  assumes "fst (agent_summarizer llm w state) = Inr upd"
  shows "\<exists>s. upd = no_keys\<lparr>summary := Some s, current_agent := Some ''Summarizer''\<rparr>"
  using assms by (auto simp: agent_summarizer_def Let_def split: option.splits reply.splits)

lemma three_replies:
  assumes "llm (calls w) (classifier_prompt t) = Content r1"
      and "llm (calls w @ [classifier_prompt t]) (keywords_prompt (strip r1) t) = Content r2"
      and "llm (calls w @ [classifier_prompt t, keywords_prompt (strip r1) t])
             (summarizer_prompt (strip r1) (map strip (str_split (CHR '','') (strip r2))) t) =
           Content r3"
  shows "observe (run llm w t) =
     (Inr \<lparr>original_text = Some t, category = Some (strip r1),
           important_terms = Some (map strip (str_split (CHR '','') (strip r2))),
           summary = Some (strip r3), current_agent = Some ''Summarizer''\<rparr>,
      calls w @ [classifier_prompt t, keywords_prompt (strip r1) t,
                 summarizer_prompt (strip r1) (map strip (str_split (CHR '','') (strip r2))) t],
      steps w @
        [(''classifier'',
          Inr (no_keys\<lparr>category := Some (strip r1), current_agent := Some ''Classifier''\<rparr>)),
         (''keyword_agent'',
          Inr (no_keys\<lparr>important_terms := Some (map strip (str_split (CHR '','') (strip r2))),
                        current_agent := Some ''Keywords''\<rparr>)),
         (''summarizer'',
          Inr (no_keys\<lparr>summary := Some (strip r3), current_agent := Some ''Summarizer''\<rparr>))])"
  using assms by (simp add: run_unfolded unfolded_def Let_def)

lemma run_shapes:
  "(\<exists>m. observe (run llm w t) =
        (Inl (ModelError m), calls w @ [classifier_prompt t],
         steps w @ [(''classifier'', Inl (ModelError m))])) \<or>
   (\<exists>m r1. observe (run llm w t) =
        (Inl (ModelError m), calls w @ [classifier_prompt t, keywords_prompt (strip r1) t],
         steps w @ [(''classifier'', Inr (no_keys\<lparr>category := Some (strip r1),
                                                  current_agent := Some ''Classifier''\<rparr>)),
                    (''keyword_agent'', Inl (ModelError m))])) \<or>
   (\<exists>m r1 r2. observe (run llm w t) =
        (Inl (ModelError m),
         calls w @ [classifier_prompt t, keywords_prompt (strip r1) t,
                    summarizer_prompt (strip r1) (map strip (str_split (CHR '','') (strip r2))) t],
         steps w @ [(''classifier'', Inr (no_keys\<lparr>category := Some (strip r1),
                                                  current_agent := Some ''Classifier''\<rparr>)),
                    (''keyword_agent'',
                     Inr (no_keys\<lparr>important_terms :=
                                     Some (map strip (str_split (CHR '','') (strip r2))),
                                   current_agent := Some ''Keywords''\<rparr>)),
                    (''summarizer'', Inl (ModelError m))])) \<or>
   (\<exists>r1 r2 r3. observe (run llm w t) =
     (Inr \<lparr>original_text = Some t, category = Some (strip r1),
           important_terms = Some (map strip (str_split (CHR '','') (strip r2))),
           summary = Some (strip r3), current_agent = Some ''Summarizer''\<rparr>,
      calls w @ [classifier_prompt t, keywords_prompt (strip r1) t,
                 summarizer_prompt (strip r1) (map strip (str_split (CHR '','') (strip r2))) t],
      steps w @
        [(''classifier'',
          Inr (no_keys\<lparr>category := Some (strip r1), current_agent := Some ''Classifier''\<rparr>)),
         (''keyword_agent'',
          Inr (no_keys\<lparr>important_terms := Some (map strip (str_split (CHR '','') (strip r2))),
                        current_agent := Some ''Keywords''\<rparr>)),
         (''summarizer'',
          Inr (no_keys\<lparr>summary := Some (strip r3), current_agent := Some ''Summarizer''\<rparr>))]))"
  by (simp add: run_unfolded unfolded_def Let_def split: reply.splits) blast

lemma example_run:
  "observe (run (canned [Content ''News'', Content ''a, b'', Content ''short'']) fresh ''text'') =
     (Inr \<lparr>original_text = Some ''text'', category = Some ''News'',
           important_terms = Some [''a'', ''b''], summary = Some ''short'',
           current_agent = Some ''Summarizer''\<rparr>,
      calls fresh @ [classifier_prompt ''text'', keywords_prompt ''News'' ''text'',
                     summarizer_prompt ''News'' [''a'', ''b''] ''text''],
      steps fresh @
        [(''classifier'',
          Inr (no_keys\<lparr>category := Some ''News'', current_agent := Some ''Classifier''\<rparr>)),
         (''keyword_agent'',
          Inr (no_keys\<lparr>important_terms := Some [''a'', ''b''],
                        current_agent := Some ''Keywords''\<rparr>)),
         (''summarizer'',
          Inr (no_keys\<lparr>summary := Some ''short'', current_agent := Some ''Summarizer''\<rparr>))])"
proof -
  have s: "strip ''News'' = ''News''" "strip ''short'' = ''short''"
    "map strip (str_split (CHR '','') (strip ''a, b'')) = [''a'', ''b'']"
    by (simp_all add: strip_def isspace_def)
  show ?thesis
    by (simp add: run_unfolded unfolded_def Let_def canned_def fresh_def s)
qed

lemma report_full:
  assumes "category r = Some c" "important_terms r = Some ts" "summary r = Some s"
    "current_agent r = Some a"
  shows "observe (report r w) = (Inr r, calls w, steps w)"
  using assms by (simp add: report_def observe_def Let_def print_out_def)

lemma report_after_invoke:
  assumes "original_text input = Some t"
  shows "observe (case invoke (fst (create_agents_team llm w0)) w input of
                    (Inl err, w5) \<Rightarrow> (Inl err, w5)
                  | (Inr result, w5) \<Rightarrow> report result w5) =
         observe (invoke (fst (create_agents_team llm w0)) w input)"
proof (cases "invoke (fst (create_agents_team llm w0)) w input")
  case (Pair res w5)
  show ?thesis
  proof (cases res)
    case (Inl err)
    with Pair show ?thesis by simp
  next
    case (Inr result)
    from invoke_team [OF assms, of llm w0 w] Pair Inr
    have "unfolded llm (calls w) (steps w) t = (Inr result, calls w5, steps w5)"
      by (simp add: observe_def)
    then have "category result \<noteq> None \<and> important_terms result \<noteq> None \<and>
               summary result \<noteq> None \<and> current_agent result \<noteq> None"
      by (auto simp: unfolded_def Let_def split: reply.splits)
    then obtain c ts s a where "category result = Some c" "important_terms result = Some ts"
      "summary result = Some s" "current_agent result = Some a"
      by auto
    from report_full [OF this, of w5] Pair Inr show ?thesis
      by (simp add: observe_def)
  qed
qed

lemma unfolded_steps:
  "map fst (drop (length l) (snd (snd (unfolded llm h l t)))) = [''classifier''] \<or>
   map fst (drop (length l) (snd (snd (unfolded llm h l t)))) = [''classifier'', ''keyword_agent''] \<or>
   map fst (drop (length l) (snd (snd (unfolded llm h l t)))) =
     [''classifier'', ''keyword_agent'', ''summarizer'']"
  by (simp add: unfolded_def Let_def split: reply.splits)

text \<open>
  When the first call of the model client raises, \<^const>\<open>main\<close> returns, having run the
  classifier on the first text and nothing else, and having printed the exception.
\<close>

lemma loop_first_call_raises:
  assumes "llm (calls w) (classifier_prompt text) = Raises m"
  shows "test_different_texts_loop (fst (create_agents_team llm w0)) ((text_type, text) # rest) w =
           (Inl (ModelError m),
            snd (invoke (fst (create_agents_team llm w0))
                   (print_out [Print 302 [text_type], Print 303 [take 60 text], Print 304 []] w)
                   (no_keys\<lparr>original_text := Some text\<rparr>)))"
proof -
  let ?w1 = "print_out [Print 302 [text_type], Print 303 [take 60 text], Print 304 []] w"
  let ?I = "no_keys\<lparr>original_text := Some text\<rparr>"
  have I: "original_text ?I = Some text"
    by (simp add: no_keys_def)
  have c: "calls ?w1 = calls w"
    by (simp add: print_out_def)
  from invoke_team [OF I, of llm w0 ?w1] assms
  have "fst (invoke (fst (create_agents_team llm w0)) ?w1 ?I) = Inl (ModelError m)"
    by (simp add: observe_def unfolded_def Let_def c)
  then show ?thesis
    by (simp add: Let_def case_prod_beta)
qed

lemma main_reports_model_failure:
  assumes "llm (calls w) (classifier_prompt (snd (hd texts))) = Raises m"
  shows "fst (main llm w) = Inr () \<and>
         drop (length (steps w)) (steps (snd (main llm w))) =
           [(''classifier'', Inl (ModelError m))] \<and>
         calls (snd (main llm w)) = calls w @ [classifier_prompt (snd (hd texts))] \<and>
         PrintError 337 (ModelError m) \<in> set (console (snd (main llm w)))"
proof -
  obtain ty tx rest where tx: "texts = (ty, tx) # rest"
    by (simp add: texts_def)
  define w1 where "w1 = print_out [Print 320 [], Print 321 [], Print 322 []] w"
  define w2 where "w2 = print_out [Print 297 [], Print 298 [], Print 299 []]
                          (snd (create_agents_team llm w1))"
  define w3 where "w3 = print_out [Print 302 [ty], Print 303 [take 60 tx], Print 304 []] w2"
  let ?T = "fst (create_agents_team llm w1)"
  let ?I = "no_keys\<lparr>original_text := Some tx\<rparr>"
  have I: "original_text ?I = Some tx"
    by (simp add: no_keys_def)
  have same: "calls w2 = calls w" "steps w2 = steps w" "calls w3 = calls w" "steps w3 = steps w"
    by (simp_all add: w3_def w2_def w1_def team_world print_out_def)
  from assms have r: "llm (calls w2) (classifier_prompt tx) = Raises m"
    by (simp add: tx same)
  have t: "test_different_texts llm w1 = (Inl (ModelError m), snd (invoke ?T w3 ?I))"
    unfolding test_different_texts_def case_prod_beta tx w2_def [symmetric] w3_def
    by (rule loop_first_call_raises [where llm = llm and w = w2 and m = m, OF r])
  have o: "observe (invoke ?T w3 ?I) =
             (Inl (ModelError m), calls w @ [classifier_prompt tx],
              steps w @ [(''classifier'', Inl (ModelError m))])"
    using assms by (simp add: invoke_team [OF I] unfolded_def Let_def same tx)
  have m: "main llm w =
             (Inr (), print_out [PrintError 337 (ModelError m), Print 338 [], Print 339 []]
                        (snd (invoke ?T w3 ?I)))"
    by (simp add: main_def Let_def w1_def [symmetric] t is_Exception_def)
  from o show ?thesis
    by (simp add: m observe_def print_out_def tx)
qed

lemma export_raises_result:
  assumes "export_raises e team err"
  shows "fst (export e team filepath w) = Inl err \<and>
         console (snd (export e team filepath w)) = console w \<and>
         calls (snd (export e team filepath w)) = calls w \<and>
         steps (snd (export e team filepath w)) = steps w"
  using assms
  by (auto simp: export_raises_def export_def Let_def holds_def
      split: sum.splits option.splits prod.splits)

lemma save_graph_visualization_caught:
  assumes "makedirs e = None" and "is_Exception err" and "export_raises e team err"
  shows "fst (save_graph_visualization e team filename w) = Inr None \<and>
         console (snd (save_graph_visualization e team filename w)) =
           console w @ [Print 65 [], PrintError 73 err] \<and>
         calls (snd (save_graph_visualization e team filename w)) = calls w \<and>
         steps (snd (save_graph_visualization e team filename w)) = steps w"
proof -
  let ?p = "path_join (OUTPUT_DIR e) filename"
  let ?w1 = "print_out [Print 65 []] w"
  obtain r w2 where x: "export e team ?p ?w1 = (r, w2)"
    by (cases "export e team ?p ?w1")
  from export_raises_result [OF assms(3), of ?p ?w1] x
  have "r = Inl err" "console w2 = console w @ [Print 65 []]" "calls w2 = calls w"
    "steps w2 = steps w"
    by (simp_all add: print_out_def)
  with assms(1,2) x show ?thesis
    by (simp add: save_graph_visualization_def Let_def print_out_def)
qed

lemma save_graph_visualization_escapes:
  assumes "makedirs e = None" and "\<not> is_Exception err" and "export_raises e team err"
  shows "fst (save_graph_visualization e team filename w) = Inl err \<and>
         calls (snd (save_graph_visualization e team filename w)) = calls w \<and>
         steps (snd (save_graph_visualization e team filename w)) = steps w"
proof -
  let ?p = "path_join (OUTPUT_DIR e) filename"
  let ?w1 = "print_out [Print 65 []] w"
  obtain r w2 where x: "export e team ?p ?w1 = (r, w2)"
    by (cases "export e team ?p ?w1")
  from export_raises_result [OF assms(3), of ?p ?w1] x
  have "r = Inl err" "calls w2 = calls w" "steps w2 = steps w"
    by (simp_all add: print_out_def)
  with assms(1,2) x show ?thesis
    by (simp add: save_graph_visualization_def Let_def)
qed

lemma invoke_team_console:
  assumes "original_text input = Some t"
  shows "\<exists>rest. console (snd (invoke (fst (create_agents_team llm w0)) w input)) =
           console w @ Print 102 [] # Print 103 [] # rest"
  using assms
  by (simp add: team_graph invoke_def recursion_limit_def
      numeral_eq_Suc END_def agent_classifier_def agent_keywords_def agent_summarizer_def
      Let_def print_out_def sent_def ran_def apply_update_def no_keys_def
      split: reply.splits)

lemma report_console: "\<exists>rest. console (snd (report result w)) = console w @ rest"
  by (simp add: report_def Let_def print_out_def split: option.splits)

lemma team_console:
  "console (snd (create_agents_team llm w)) = console w @ [Print 216 [], Print 234 []]"
  by (simp add: create_agents_team_def Let_def print_out_def)

lemma test_agents_team_after_caught:
  assumes "makedirs e = None" and "is_Exception err"
      and "export_raises e (fst (create_agents_team llm w)) err"
  shows "observe (test_agents_team e llm w) =
           observe (invoke (fst (create_agents_team llm w)) w
                      (no_keys\<lparr>original_text := Some sample_text,
                               current_agent := Some ''Starting''\<rparr>)) \<and>
         (\<exists>rest. console (snd (test_agents_team e llm w)) =
            console w @
            [Print 246 [], Print 247 [], Print 248 [], Print 216 [], Print 234 [],
             Print 65 [], PrintError 73 err,
             Print 266 [], Print 267 [strip sample_text], Print 268 [], Print 269 [],
             Print 102 [], Print 103 []] @ rest)"
proof -
  let ?T = "fst (create_agents_team llm w)"
  let ?I = "no_keys\<lparr>original_text := Some sample_text, current_agent := Some ''Starting''\<rparr>"
  define w1 where "w1 = print_out [Print 246 [], Print 247 [], Print 248 []] w"
  define w2 where "w2 = snd (create_agents_team llm w1)"
  define w3 where "w3 = snd (save_graph_visualization e ?T ''agents_workflow.png'' w2)"
  define w4 where "w4 = print_out [Print 266 [], Print 267 [strip sample_text],
                                   Print 268 [], Print 269 []] w3"
  have I: "original_text ?I = Some sample_text"
    by (simp add: no_keys_def)
  have T: "fst (create_agents_team llm w1) = ?T"
    by (simp add: team_graph)
  from save_graph_visualization_caught [OF assms, of "''agents_workflow.png''" w2]
  have sgv: "save_graph_visualization e ?T ''agents_workflow.png'' w2 = (Inr None, w3)"
    and c3: "console w3 = console w2 @ [Print 65 [], PrintError 73 err]"
    and s3: "calls w3 = calls w2" "steps w3 = steps w2"
    by (simp_all add: w3_def prod_eq_iff)
  have same: "calls w4 = calls w" "steps w4 = steps w"
    by (simp_all add: w4_def s3 w2_def w1_def team_world print_out_def)
  have c4: "console w4 = console w @
            [Print 246 [], Print 247 [], Print 248 [], Print 216 [], Print 234 [],
             Print 65 [], PrintError 73 err,
             Print 266 [], Print 267 [strip sample_text], Print 268 [], Print 269 []]"
    by (simp add: w4_def c3 w2_def w1_def team_console print_out_def)
  have unf: "test_agents_team e llm w =
          (case invoke ?T w4 ?I of
             (Inl err, w5) \<Rightarrow> (Inl err, w5)
           | (Inr result, w5) \<Rightarrow> report result w5)"
    by (simp add: test_agents_team_def Let_def case_prod_beta w1_def [symmetric] T
        w2_def [symmetric] sgv w4_def [symmetric])
  then have "observe (test_agents_team e llm w) = observe (invoke ?T w4 ?I)"
    by (simp only: report_after_invoke [OF I])
  also have "\<dots> = unfolded llm (calls w) (steps w) sample_text"
    by (simp only: invoke_team [OF I] same)
  finally have o: "observe (test_agents_team e llm w) = observe (invoke ?T w ?I)"
    by (simp only: invoke_team [OF I])
  obtain r5 w5 where i: "invoke ?T w4 ?I = (r5, w5)"
    by (cases "invoke ?T w4 ?I")
  from invoke_team_console [OF I, of llm w w4] i
  obtain rest where c5: "console w5 = console w4 @ Print 102 [] # Print 103 [] # rest"
    by auto
  have "\<exists>more. console (snd (test_agents_team e llm w)) = console w5 @ more"
  proof (cases r5)
    case (Inl x)
    with unf i show ?thesis by simp
  next
    case (Inr result)
    with unf i report_console [of result w5] show ?thesis by simp
  qed
  then obtain more where "console (snd (test_agents_team e llm w)) = console w5 @ more"
    by blast
  with c5 c4 have "console (snd (test_agents_team e llm w)) =
            console w @
            [Print 246 [], Print 247 [], Print 248 [], Print 216 [], Print 234 [],
             Print 65 [], PrintError 73 err,
             Print 266 [], Print 267 [strip sample_text], Print 268 [], Print 269 [],
             Print 102 [], Print 103 []] @ (rest @ more)"
    by simp
  with o show ?thesis
    by blast
qed

lemma test_agents_team_after_escape:
  assumes "makedirs e = None" and "\<not> is_Exception err"
      and "export_raises e (fst (create_agents_team llm w)) err"
  shows "fst (test_agents_team e llm w) = Inl err \<and>
         new_steps w (test_agents_team e llm w) = []"
proof -
  let ?T = "fst (create_agents_team llm w)"
  define w1 where "w1 = print_out [Print 246 [], Print 247 [], Print 248 []] w"
  define w2 where "w2 = snd (create_agents_team llm w1)"
  define w3 where "w3 = snd (save_graph_visualization e ?T ''agents_workflow.png'' w2)"
  have T: "fst (create_agents_team llm w1) = ?T"
    by (simp add: team_graph)
  from save_graph_visualization_escapes [OF assms, of "''agents_workflow.png''" w2]
  have sgv: "save_graph_visualization e ?T ''agents_workflow.png'' w2 = (Inl err, w3)"
    and s3: "steps w3 = steps w2"
    by (simp_all add: w3_def prod_eq_iff)
  have "test_agents_team e llm w = (Inl err, w3)"
    by (simp add: test_agents_team_def Let_def case_prod_beta w1_def [symmetric] T
        w2_def [symmetric] sgv)
  then show ?thesis
    by (simp add: new_steps_def s3 w2_def w1_def team_world print_out_def)
qed

lemma makedirs_failure_propagates:
  assumes "makedirs e = Some err"
  shows "fst (test_agents_team e llm w) = Inl err \<and>
         new_steps w (test_agents_team e llm w) = []"
  using assms
  by (simp add: test_agents_team_def save_graph_visualization_def Let_def case_prod_beta
      team_world new_steps_def print_out_def)

lemma test_agents_team_steps:
  assumes "observe (test_agents_team e llm w) =
           observe (invoke (fst (create_agents_team llm w)) w
                      (no_keys\<lparr>original_text := Some sample_text,
                               current_agent := Some ''Starting''\<rparr>))"
  shows "map fst (new_steps w (test_agents_team e llm w)) = [''classifier''] \<or>
         map fst (new_steps w (test_agents_team e llm w)) = [''classifier'', ''keyword_agent''] \<or>
         map fst (new_steps w (test_agents_team e llm w)) =
           [''classifier'', ''keyword_agent'', ''summarizer'']"
proof -
  let ?I = "no_keys\<lparr>original_text := Some sample_text, current_agent := Some ''Starting''\<rparr>"
  have I: "original_text ?I = Some sample_text"
    by (simp add: no_keys_def)
  from assms have "observe (test_agents_team e llm w) =
                    unfolded llm (calls w) (steps w) sample_text"
    by (simp only: invoke_team [OF I])
  then have "steps (snd (test_agents_team e llm w)) =
          snd (snd (unfolded llm (calls w) (steps w) sample_text))"
    by (simp add: observe_def prod_eq_iff)
  then show ?thesis
    using unfolded_steps [of "steps w" llm "calls w" sample_text]
    by (simp add: new_steps_def)
qed

text \<open>A write that fails leaves the file opened, emptied and with what the write left.\<close>

lemma failed_write_leaves_file:
  assumes "makedirs e = None" and "draw_mermaid_png e team = Inr png"
      and "open_file e = None" and "write_file e = Some (err, left)"
  shows "saved (snd (save_graph_visualization e team filename w)) =
           saved w @ [(path_join (OUTPUT_DIR e) filename, []),
                      (path_join (OUTPUT_DIR e) filename, left)]"
  using assms
  by (simp add: save_graph_visualization_def export_def Let_def holds_def print_out_def)


section \<open>Properties of the pipeline\<close>

text \<open>
  Claim C1. The pipeline runner is a fixed linear chain. The specification's states
  \<open>Classifying\<close>, \<open>ExtractingKeywords\<close>, \<open>Summarizing\<close> and \<open>Done\<close> are the nodes
  \<open>classifier\<close>, \<open>keyword_agent\<close>, \<open>summarizer\<close> and the end marker of the graph that
  \<^const>\<open>create_agents_team\<close> builds. The graph has these three nodes, starts at
  \<open>classifier\<close>, and its step relation consists of exactly the three transitions of the
  chain: it mentions neither the state nor a reply, every node has one successor, and
  there is no branch, retry edge or cycle. Whatever the input text and the client, the
  nodes a run executes are a beginning of the chain and nothing else; and whatever the
  three replies of the model are, the run executes the whole chain, once each and in
  order, and returns.
\<close>

theorem pipeline_is_fixed_linear_chain:
  "map fst (nodes (fst (create_agents_team llm w))) =
     [''classifier'', ''keyword_agent'', ''summarizer''] \<and>
   entry_point (fst (create_agents_team llm w)) = Some ''classifier'' \<and>
   step (fst (create_agents_team llm w)) n n' =
     ((n, n') \<in> {(''classifier'', ''keyword_agent''), (''keyword_agent'', ''summarizer''),
                  (''summarizer'', END)}) \<and>
   (map fst (new_steps w (run llm w t)) = [''classifier''] \<or>
    map fst (new_steps w (run llm w t)) = [''classifier'', ''keyword_agent''] \<or>
    map fst (new_steps w (run llm w t)) = [''classifier'', ''keyword_agent'', ''summarizer'']) \<and>
   (llm (calls w) (classifier_prompt t) = Content r1 \<and>
    llm (calls w @ [classifier_prompt t]) (keywords_prompt (strip r1) t) = Content r2 \<and>
    llm (calls w @ [classifier_prompt t, keywords_prompt (strip r1) t])
        (summarizer_prompt (strip r1) (map strip (str_split (CHR '','') (strip r2))) t) =
      Content r3 \<longrightarrow>
      map fst (new_steps w (run llm w t)) = [''classifier'', ''keyword_agent'', ''summarizer''] \<and>
      (\<exists>final. fst (run llm w t) = Inr final))"
proof (intro conjI impI)
  show "map fst (nodes (fst (create_agents_team llm w))) =
     [''classifier'', ''keyword_agent'', ''summarizer'']"
    by (simp add: team_graph)
  show "entry_point (fst (create_agents_team llm w)) = Some ''classifier''"
    by (simp add: team_graph)
  show "step (fst (create_agents_team llm w)) n n' =
     ((n, n') \<in> {(''classifier'', ''keyword_agent''), (''keyword_agent'', ''summarizer''),
                  (''summarizer'', END)})"
    by (simp add: step_def team_graph)
  show "map fst (new_steps w (run llm w t)) = [''classifier''] \<or>
    map fst (new_steps w (run llm w t)) = [''classifier'', ''keyword_agent''] \<or>
    map fst (new_steps w (run llm w t)) = [''classifier'', ''keyword_agent'', ''summarizer'']"
    using run_shapes [of llm w t] by (auto dest!: observed_parts(3))
next
  assume "llm (calls w) (classifier_prompt t) = Content r1 \<and>
    llm (calls w @ [classifier_prompt t]) (keywords_prompt (strip r1) t) = Content r2 \<and>
    llm (calls w @ [classifier_prompt t, keywords_prompt (strip r1) t])
        (summarizer_prompt (strip r1) (map strip (str_split (CHR '','') (strip r2))) t) =
      Content r3"
  then have o: "observe (run llm w t) =
     (Inr \<lparr>original_text = Some t, category = Some (strip r1),
           important_terms = Some (map strip (str_split (CHR '','') (strip r2))),
           summary = Some (strip r3), current_agent = Some ''Summarizer''\<rparr>,
      calls w @ [classifier_prompt t, keywords_prompt (strip r1) t,
                 summarizer_prompt (strip r1) (map strip (str_split (CHR '','') (strip r2))) t],
      steps w @
        [(''classifier'',
          Inr (no_keys\<lparr>category := Some (strip r1), current_agent := Some ''Classifier''\<rparr>)),
         (''keyword_agent'',
          Inr (no_keys\<lparr>important_terms := Some (map strip (str_split (CHR '','') (strip r2))),
                        current_agent := Some ''Keywords''\<rparr>)),
         (''summarizer'',
          Inr (no_keys\<lparr>summary := Some (strip r3), current_agent := Some ''Summarizer''\<rparr>))])"
    by (intro three_replies) simp_all
  show "map fst (new_steps w (run llm w t)) = [''classifier'', ''keyword_agent'', ''summarizer'']"
    by (simp add: observed_parts(3) [OF o])
  show "\<exists>final. fst (run llm w t) = Inr final"
    by (simp add: observed_parts(1) [OF o])
qed

text \<open>A run with three canned replies executes the three nodes and returns.\<close>

theorem pipeline_is_fixed_linear_chain_witness:
  "canned [Content ''News'', Content ''a, b'', Content ''short''] (calls fresh)
     (classifier_prompt ''text'') = Content ''News'' \<and>
   map fst (new_steps fresh
     (run (canned [Content ''News'', Content ''a, b'', Content ''short'']) fresh ''text'')) =
     [''classifier'', ''keyword_agent'', ''summarizer''] \<and>
   (\<exists>final. fst (run (canned [Content ''News'', Content ''a, b'', Content ''short'']) fresh
                   ''text'') = Inr final)"
proof -
  let ?llm = "canned [Content ''News'', Content ''a, b'', Content ''short'']"
  have h: "?llm (calls fresh) (classifier_prompt ''text'') = Content ''News'' \<and>
    ?llm (calls fresh @ [classifier_prompt ''text'']) (keywords_prompt (strip ''News'') ''text'') =
      Content ''a, b'' \<and>
    ?llm (calls fresh @ [classifier_prompt ''text'', keywords_prompt (strip ''News'') ''text''])
        (summarizer_prompt (strip ''News'') (map strip (str_split (CHR '','') (strip ''a, b'')))
           ''text'') =
      Content ''short''"
    by (simp add: fresh_def canned_def)
  from pipeline_is_fixed_linear_chain
         [where llm = ?llm and w = fresh and t = "''text''" and ?r1.0 = "''News''"
            and ?r2.0 = "''a, b''" and ?r3.0 = "''short''"]
  have "map fst (new_steps fresh (run ?llm fresh ''text'')) =
          [''classifier'', ''keyword_agent'', ''summarizer''] \<and>
        (\<exists>final. fst (run ?llm fresh ''text'') = Inr final)"
    using h by blast
  with h show ?thesis
    by blast
qed

text \<open>
  Claim C2, as the code has it. For every input text, when the three calls of the model
  client return (they are the only calls the run makes), the run returns a record with
  all five fields populated, the three nodes run in the order classifier, keyword
  extractor, summarizer, and the values
  written to \<open>current_agent\<close> are, in this order, \<open>Classifier\<close>, \<open>Keywords\<close> and
  \<open>Summarizer\<close>. Each update replaces the value of \<open>current_agent\<close>, so these are the
  values the field of the state takes after each step. The label the keyword extractor
  writes is \<open>Keywords\<close>, not \<open>Keyword-Extractor\<close>.
\<close>

theorem run_populates_all_fields:
  assumes "llm (calls w) (classifier_prompt t) = Content r1"
      and "llm (calls w @ [classifier_prompt t]) (keywords_prompt (strip r1) t) = Content r2"
      and "llm (calls w @ [classifier_prompt t, keywords_prompt (strip r1) t])
             (summarizer_prompt (strip r1) (map strip (str_split (CHR '','') (strip r2))) t) =
           Content r3"
  shows "fst (run llm w t) =
           Inr \<lparr>original_text = Some t, category = Some (strip r1),
                important_terms = Some (map strip (str_split (CHR '','') (strip r2))),
                summary = Some (strip r3), current_agent = Some ''Summarizer''\<rparr> \<and>
         calls (snd (run llm w t)) =
           calls w @ [classifier_prompt t, keywords_prompt (strip r1) t,
                      summarizer_prompt (strip r1)
                        (map strip (str_split (CHR '','') (strip r2))) t] \<and>
         map fst (new_steps w (run llm w t)) = [''classifier'', ''keyword_agent'', ''summarizer''] \<and>
         agents_seen (new_steps w (run llm w t)) = [''Classifier'', ''Keywords'', ''Summarizer'']"
  using observed_parts [OF three_replies [OF assms]]
  by (simp add: agents_seen_def no_keys_def)

text \<open>A run with three canned replies.\<close>

theorem run_populates_all_fields_witness:
  "fst (run (canned [Content ''News'', Content ''a, b'', Content ''short'']) fresh ''text'') =
     Inr \<lparr>original_text = Some ''text'', category = Some ''News'',
          important_terms = Some [''a'', ''b''], summary = Some ''short'',
          current_agent = Some ''Summarizer''\<rparr> \<and>
   agents_seen (new_steps fresh
     (run (canned [Content ''News'', Content ''a, b'', Content ''short'']) fresh ''text'')) =
     [''Classifier'', ''Keywords'', ''Summarizer'']"
proof -
  let ?llm = "canned [Content ''News'', Content ''a, b'', Content ''short'']"
  have h1: "?llm (calls fresh) (classifier_prompt ''text'') = Content ''News''"
    by (simp add: fresh_def canned_def)
  have h2: "?llm (calls fresh @ [classifier_prompt ''text''])
              (keywords_prompt (strip ''News'') ''text'') = Content ''a, b''"
    by (simp add: fresh_def canned_def)
  have h3: "?llm (calls fresh @ [classifier_prompt ''text'', keywords_prompt (strip ''News'') ''text''])
        (summarizer_prompt (strip ''News'') (map strip (str_split (CHR '','') (strip ''a, b'')))
           ''text'') = Content ''short''"
    by (simp add: fresh_def canned_def)
  have s: "strip ''News'' = ''News''" "strip ''short'' = ''short''"
    "map strip (str_split (CHR '','') (strip ''a, b'')) = [''a'', ''b'']"
    by (simp_all add: strip_def isspace_def)
  from run_populates_all_fields
         [where llm = ?llm and w = fresh and t = "''text''" and ?r1.0 = "''News''"
            and ?r2.0 = "''a, b''" and ?r3.0 = "''short''", OF h1 h2 h3]
  show ?thesis
    by (simp add: s)
qed

text \<open>
  The claim as the specification states it fails: in a run whose three calls return,
  the labels written are not \<open>Classifier\<close>, \<open>Keyword-Extractor\<close>, \<open>Summarizer\<close>.
\<close>

theorem keyword_extractor_label_counterexample:
  "fst (run (canned [Content ''News'', Content ''a, b'', Content ''short'']) fresh ''text'') =
     Inr \<lparr>original_text = Some ''text'', category = Some ''News'',
          important_terms = Some [''a'', ''b''], summary = Some ''short'',
          current_agent = Some ''Summarizer''\<rparr> \<and>
   agents_seen (new_steps fresh
     (run (canned [Content ''News'', Content ''a, b'', Content ''short'']) fresh ''text'')) \<noteq>
     [''Classifier'', ''Keyword-Extractor'', ''Summarizer'']"
  using observed_parts(1,3) [OF example_run]
  by (simp add: agents_seen_def no_keys_def)

text \<open>
  Claim C3. For each stage \<open>N\<close> of the three: if the call of the model client inside stage
  \<open>N\<close> raises (the calls of the stages before having returned), then the run raises that
  same error and returns no record, the nodes run are exactly the first \<open>N\<close> of the chain
  (stage \<open>N + 1\<close> is never invoked and no stage is skipped), and the model client has been
  called exactly \<open>N\<close> times, once by each stage run (no retry).
\<close>

theorem model_failure_aborts_run:
  "(llm (calls w) (classifier_prompt t) = Raises m \<longrightarrow>
      fst (run llm w t) = Inl (ModelError m) \<and>
      map fst (new_steps w (run llm w t)) = [''classifier''] \<and>
      calls (snd (run llm w t)) = calls w @ [classifier_prompt t]) \<and>
   (llm (calls w) (classifier_prompt t) = Content r1 \<and>
    llm (calls w @ [classifier_prompt t]) (keywords_prompt (strip r1) t) = Raises m \<longrightarrow>
      fst (run llm w t) = Inl (ModelError m) \<and>
      map fst (new_steps w (run llm w t)) = [''classifier'', ''keyword_agent''] \<and>
      calls (snd (run llm w t)) =
        calls w @ [classifier_prompt t, keywords_prompt (strip r1) t]) \<and>
   (llm (calls w) (classifier_prompt t) = Content r1 \<and>
    llm (calls w @ [classifier_prompt t]) (keywords_prompt (strip r1) t) = Content r2 \<and>
    llm (calls w @ [classifier_prompt t, keywords_prompt (strip r1) t])
        (summarizer_prompt (strip r1) (map strip (str_split (CHR '','') (strip r2))) t) =
      Raises m \<longrightarrow>
      fst (run llm w t) = Inl (ModelError m) \<and>
      map fst (new_steps w (run llm w t)) = [''classifier'', ''keyword_agent'', ''summarizer''] \<and>
      calls (snd (run llm w t)) =
        calls w @ [classifier_prompt t, keywords_prompt (strip r1) t,
                   summarizer_prompt (strip r1) (map strip (str_split (CHR '','') (strip r2))) t])"
proof -
  let ?p1 = "classifier_prompt t"
  let ?p2 = "keywords_prompt (strip r1) t"
  let ?p3 = "summarizer_prompt (strip r1) (map strip (str_split (CHR '','') (strip r2))) t"
  have first: "fst (run llm w t) = Inl (ModelError m) \<and>
      map fst (new_steps w (run llm w t)) = [''classifier''] \<and>
      calls (snd (run llm w t)) = calls w @ [?p1]"
    if "llm (calls w) ?p1 = Raises m"
  proof -
    from that have "observe (run llm w t) =
        (Inl (ModelError m), calls w @ [?p1], steps w @ [(''classifier'', Inl (ModelError m))])"
      by (simp add: run_unfolded unfolded_def Let_def)
    from observed_parts [OF this] show ?thesis by simp
  qed
  have second: "fst (run llm w t) = Inl (ModelError m) \<and>
      map fst (new_steps w (run llm w t)) = [''classifier'', ''keyword_agent''] \<and>
      calls (snd (run llm w t)) = calls w @ [?p1, ?p2]"
    if "llm (calls w) ?p1 = Content r1" and "llm (calls w @ [?p1]) ?p2 = Raises m"
  proof -
    from that have "observe (run llm w t) =
        (Inl (ModelError m), calls w @ [?p1, ?p2],
         steps w @ [(''classifier'', Inr (no_keys\<lparr>category := Some (strip r1),
                                                  current_agent := Some ''Classifier''\<rparr>)),
                    (''keyword_agent'', Inl (ModelError m))])"
      by (simp add: run_unfolded unfolded_def Let_def)
    from observed_parts [OF this] show ?thesis by simp
  qed
  have third: "fst (run llm w t) = Inl (ModelError m) \<and>
      map fst (new_steps w (run llm w t)) = [''classifier'', ''keyword_agent'', ''summarizer''] \<and>
      calls (snd (run llm w t)) = calls w @ [?p1, ?p2, ?p3]"
    if "llm (calls w) ?p1 = Content r1" and "llm (calls w @ [?p1]) ?p2 = Content r2"
      and "llm (calls w @ [?p1, ?p2]) ?p3 = Raises m"
  proof -
    from that have "observe (run llm w t) =
        (Inl (ModelError m), calls w @ [?p1, ?p2, ?p3],
         steps w @ [(''classifier'', Inr (no_keys\<lparr>category := Some (strip r1),
                                                  current_agent := Some ''Classifier''\<rparr>)),
                    (''keyword_agent'',
                     Inr (no_keys\<lparr>important_terms :=
                                     Some (map strip (str_split (CHR '','') (strip r2))),
                                   current_agent := Some ''Keywords''\<rparr>)),
                    (''summarizer'', Inl (ModelError m))])"
      by (simp add: run_unfolded unfolded_def Let_def)
    from observed_parts [OF this] show ?thesis by simp
  qed
  from first second third show ?thesis
    by blast
qed

text \<open>Three stub clients that raise at the first, second and third call.\<close>

theorem model_failure_aborts_run_witness:
  "fst (run (canned [Raises ''down'']) fresh ''text'') = Inl (ModelError ''down'') \<and>
   map fst (new_steps fresh (run (canned [Raises ''down'']) fresh ''text'')) = [''classifier''] \<and>
   fst (run (canned [Content ''News'', Raises ''down'']) fresh ''text'') =
     Inl (ModelError ''down'') \<and>
   map fst (new_steps fresh (run (canned [Content ''News'', Raises ''down'']) fresh ''text'')) =
     [''classifier'', ''keyword_agent''] \<and>
   fst (run (canned [Content ''News'', Content ''a, b'', Raises ''down'']) fresh ''text'') =
     Inl (ModelError ''down'') \<and>
   map fst (new_steps fresh
     (run (canned [Content ''News'', Content ''a, b'', Raises ''down'']) fresh ''text'')) =
     [''classifier'', ''keyword_agent'', ''summarizer'']"
proof -
  let ?s1 = "canned [Raises ''down'']"
  let ?s2 = "canned [Content ''News'', Raises ''down'']"
  let ?s3 = "canned [Content ''News'', Content ''a, b'', Raises ''down'']"
  have h1: "?s1 (calls fresh) (classifier_prompt ''text'') = Raises ''down''"
    by (simp add: fresh_def canned_def)
  have h2: "?s2 (calls fresh) (classifier_prompt ''text'') = Content ''News'' \<and>
    ?s2 (calls fresh @ [classifier_prompt ''text'']) (keywords_prompt (strip ''News'') ''text'') =
      Raises ''down''"
    by (simp add: fresh_def canned_def)
  have h3: "?s3 (calls fresh) (classifier_prompt ''text'') = Content ''News'' \<and>
    ?s3 (calls fresh @ [classifier_prompt ''text'']) (keywords_prompt (strip ''News'') ''text'') =
      Content ''a, b'' \<and>
    ?s3 (calls fresh @ [classifier_prompt ''text'', keywords_prompt (strip ''News'') ''text''])
        (summarizer_prompt (strip ''News'') (map strip (str_split (CHR '','') (strip ''a, b'')))
           ''text'') =
      Raises ''down''"
    by (simp add: fresh_def canned_def)
  from model_failure_aborts_run
         [where llm = ?s1 and w = fresh and t = "''text''" and m = "''down''"] h1
  have a: "fst (run ?s1 fresh ''text'') = Inl (ModelError ''down'') \<and>
           map fst (new_steps fresh (run ?s1 fresh ''text'')) = [''classifier'']"
    by blast
  from model_failure_aborts_run
         [where llm = ?s2 and w = fresh and t = "''text''" and m = "''down''"
            and ?r1.0 = "''News''"] h2
  have b: "fst (run ?s2 fresh ''text'') = Inl (ModelError ''down'') \<and>
           map fst (new_steps fresh (run ?s2 fresh ''text'')) = [''classifier'', ''keyword_agent'']"
    by blast
  from model_failure_aborts_run
         [where llm = ?s3 and w = fresh and t = "''text''" and m = "''down''"
            and ?r1.0 = "''News''" and ?r2.0 = "''a, b''"] h3
  have c: "fst (run ?s3 fresh ''text'') = Inl (ModelError ''down'') \<and>
           map fst (new_steps fresh (run ?s3 fresh ''text'')) =
             [''classifier'', ''keyword_agent'', ''summarizer'']"
    by blast
  from a b c show ?thesis
    by blast
qed

text \<open>
  Claim C4. The keyword extractor parses the reply of the model by trimming it,
  splitting it at every comma and trimming each piece, the pieces keeping their order.
  The number of terms is one more than the number of commas of the reply, whatever it
  is: nothing pads or rejects a reply of fewer or more than five terms. The reply
  \<open>AI, models, GPT-4, reasoning, images\<close> gives those five terms.
\<close>

theorem keywords_split_and_trimmed:
  assumes "category state = Some cat"
      and "original_text state = Some t"
      and "llm (calls w) (keywords_prompt cat t) = Content r"
  shows "fst (agent_keywords llm w state) =
           Inr (no_keys\<lparr>important_terms := Some (map strip (str_split (CHR '','') (strip r))),
                        current_agent := Some ''Keywords''\<rparr>) \<and>
         length (map strip (str_split (CHR '','') (strip r))) =
           Suc (length (filter (\<lambda>c. c = CHR '','') r)) \<and>
         (r = ''AI, models, GPT-4, reasoning, images'' \<longrightarrow>
            map strip (str_split (CHR '','') (strip r)) =
              [''AI'', ''models'', ''GPT-4'', ''reasoning'', ''images''])"
proof (intro conjI impI)
  show "fst (agent_keywords llm w state) =
           Inr (no_keys\<lparr>important_terms := Some (map strip (str_split (CHR '','') (strip r))),
                        current_agent := Some ''Keywords''\<rparr>)"
    using assms by (simp add: agent_keywords_def Let_def print_out_def)
  show "length (map strip (str_split (CHR '','') (strip r))) =
           Suc (length (filter (\<lambda>c. c = CHR '','') r))"
    by (simp add: length_str_split commas_strip)
  show "map strip (str_split (CHR '','') (strip r)) =
              [''AI'', ''models'', ''GPT-4'', ''reasoning'', ''images'']"
    if "r = ''AI, models, GPT-4, reasoning, images''"
    unfolding that by (simp add: strip_def isspace_def)
qed

text \<open>
  The reply of the specification gives its five terms; a reply of three terms, with
  whitespace around them, gives three terms.
\<close>

theorem keywords_split_and_trimmed_witness:
  "fst (agent_keywords (canned [Content ''AI, models, GPT-4, reasoning, images'']) fresh
          \<lparr>original_text = Some ''text'', category = Some ''News'', important_terms = None,
           summary = None, current_agent = Some ''Classifier''\<rparr>) =
     Inr (no_keys\<lparr>important_terms := Some [''AI'', ''models'', ''GPT-4'', ''reasoning'', ''images''],
                  current_agent := Some ''Keywords''\<rparr>) \<and>
   fst (agent_keywords (canned [Content '' AI ,models,  GPT-4 \<newline>'']) fresh
          \<lparr>original_text = Some ''text'', category = Some ''News'', important_terms = None,
           summary = None, current_agent = Some ''Classifier''\<rparr>) =
     Inr (no_keys\<lparr>important_terms := Some [''AI'', ''models'', ''GPT-4''],
                  current_agent := Some ''Keywords''\<rparr>)"
proof -
  let ?st = "\<lparr>original_text = Some ''text'', category = Some ''News'', important_terms = None,
              summary = None, current_agent = Some ''Classifier''\<rparr>"
  let ?r5 = "''AI, models, GPT-4, reasoning, images''"
  let ?r3 = "'' AI ,models,  GPT-4 \<newline>''"
  have a: "category ?st = Some ''News''" "original_text ?st = Some ''text''"
    by simp_all
  have b5: "canned [Content ?r5] (calls fresh) (keywords_prompt ''News'' ''text'') = Content ?r5"
    by (simp add: canned_def fresh_def)
  have b3: "canned [Content ?r3] (calls fresh) (keywords_prompt ''News'' ''text'') = Content ?r3"
    by (simp add: canned_def fresh_def)
  have c3: "map strip (str_split (CHR '','') (strip ?r3)) = [''AI'', ''models'', ''GPT-4'']"
    by (simp add: strip_def isspace_def)
  from keywords_split_and_trimmed
         [where llm = "canned [Content ?r5]" and w = fresh and state = ?st
            and cat = "''News''" and t = "''text''" and r = ?r5, OF a b5]
  have five: "fst (agent_keywords (canned [Content ?r5]) fresh ?st) =
     Inr (no_keys\<lparr>important_terms := Some [''AI'', ''models'', ''GPT-4'', ''reasoning'', ''images''],
                  current_agent := Some ''Keywords''\<rparr>)"
    by simp
  from keywords_split_and_trimmed
         [where llm = "canned [Content ?r3]" and w = fresh and state = ?st
            and cat = "''News''" and t = "''text''" and r = ?r3, OF a b3]
  have three: "fst (agent_keywords (canned [Content ?r3]) fresh ?st) =
     Inr (no_keys\<lparr>important_terms := Some [''AI'', ''models'', ''GPT-4''],
                  current_agent := Some ''Keywords''\<rparr>)"
    by (simp add: c3)
  from five three show ?thesis
    by (rule conjI)
qed

text \<open>
  Claim C5. The classifier parses the reply of the model by trimming whitespace and
  nothing else: whatever string the model replies, the update returned sets the category
  to the trimmed reply (and the current agent to \<open>Classifier\<close>), and the state has that
  category after the update. Nothing compares the reply with the six labels of
  the prompt.
\<close>

theorem classifier_accepts_any_reply:
  assumes "original_text state = Some t"
      and "llm (calls w) (classifier_prompt t) = Content r"
  shows "fst (agent_classifier llm w state) =
           Inr (no_keys\<lparr>category := Some (strip r), current_agent := Some ''Classifier''\<rparr>) \<and>
         category (apply_update state
           (no_keys\<lparr>category := Some (strip r), current_agent := Some ''Classifier''\<rparr>)) =
           Some (strip r)"
  using assms by (simp add: agent_classifier_def Let_def print_out_def apply_update_def)

text \<open>
  The reply \<open>Poetry\<close>, with a space before and a line break after, is none of the six
  labels and becomes the category.
\<close>

theorem classifier_accepts_any_reply_witness:
  "original_text (input_of ''Roses are red'') = Some ''Roses are red'' \<and>
   canned [Content '' Poetry\<newline>''] (calls fresh) (classifier_prompt ''Roses are red'') =
     Content '' Poetry\<newline>'' \<and>
   fst (agent_classifier (canned [Content '' Poetry\<newline>'']) fresh (input_of ''Roses are red'')) =
     Inr (no_keys\<lparr>category := Some ''Poetry'', current_agent := Some ''Classifier''\<rparr>) \<and>
   ''Poetry'' \<notin> set category_labels"
proof -
  have a: "original_text (input_of ''Roses are red'') = Some ''Roses are red''"
    by (simp add: input_of_def)
  have b: "canned [Content '' Poetry\<newline>''] (calls fresh) (classifier_prompt ''Roses are red'') =
     Content '' Poetry\<newline>''"
    by (simp add: canned_def fresh_def)
  have c: "strip '' Poetry\<newline>'' = ''Poetry''"
    by (simp add: strip_def isspace_def)
  have d: "''Poetry'' \<notin> set category_labels"
    by (simp add: category_labels_def)
  from classifier_accepts_any_reply
         [where llm = "canned [Content '' Poetry\<newline>'']" and w = fresh
            and state = "input_of ''Roses are red''" and t = "''Roses are red''"
            and r = "'' Poetry\<newline>''", OF a b] a b c d
  show ?thesis
    by simp
qed

text \<open>
  Claim C6, as the code has it. Within one run, no stage writes \<open>original_text\<close>, and
  each of \<open>category\<close>, \<open>important_terms\<close> and \<open>summary\<close> is written at most once; the
  keys are written in stage order, \<open>category\<close> by the first node, \<open>important_terms\<close> by
  the second, \<open>summary\<close> by the third, each together with \<open>current_agent\<close>, up to the node
  that raises, if one does; and no stage reads a key that is missing from the state (the
  run never raises \<open>KeyError\<close>): \<open>original_text\<close> comes with the input, every other key
  a stage reads has been written by an earlier stage.
\<close>

theorem fields_written_in_stage_order:
  "writes ''original_text'' (new_steps w (run llm w t)) = 0 \<and>
   writes ''category'' (new_steps w (run llm w t)) \<le> 1 \<and>
   writes ''important_terms'' (new_steps w (run llm w t)) \<le> 1 \<and>
   writes ''summary'' (new_steps w (run llm w t)) \<le> 1 \<and>
   (keys_written (new_steps w (run llm w t)) = [(''classifier'', [])] \<or>
    keys_written (new_steps w (run llm w t)) =
      [(''classifier'', [''category'', ''current_agent'']), (''keyword_agent'', [])] \<or>
    keys_written (new_steps w (run llm w t)) =
      [(''classifier'', [''category'', ''current_agent'']),
       (''keyword_agent'', [''important_terms'', ''current_agent'']), (''summarizer'', [])] \<or>
    keys_written (new_steps w (run llm w t)) =
      [(''classifier'', [''category'', ''current_agent'']),
       (''keyword_agent'', [''important_terms'', ''current_agent'']),
       (''summarizer'', [''summary'', ''current_agent''])]) \<and>
   (\<forall>k. fst (run llm w t) \<noteq> Inl (KeyError k))"
  by (insert run_shapes [of llm w t], elim disjE exE;
      frule observed_parts(1); drule observed_parts(3);
      simp add: writes_def keys_written_def keys_def no_keys_def)

text \<open>
  The claim as the specification states it fails for \<open>current_agent\<close>, which every
  stage writes: in a run whose three calls return it is written three times.
\<close>

theorem current_agent_written_thrice_counterexample:
  "writes ''current_agent''
     (new_steps fresh
        (run (canned [Content ''News'', Content ''a, b'', Content ''short'']) fresh ''text'')) = 3 \<and>
   \<not> writes ''current_agent''
     (new_steps fresh
        (run (canned [Content ''News'', Content ''a, b'', Content ''short'']) fresh ''text'')) \<le> 1"
  using observed_parts(3) [OF example_run]
  by (simp add: writes_def keys_written_def keys_def no_keys_def)

text \<open>
  Claim C7. End to end, with a stub client that returns the three canned replies
  \<open>Technical Article\<close>, \<open>AI, GPT-4, reasoning, images, education\<close> and
  \<open>OpenAI's new model improves reasoning and multimodal AI capabilities.\<close> in stage
  order, a run on any input text returns a record whose category is the first reply,
  whose important terms are the second reply split at its commas and trimmed, whose
  summary is the third reply, and whose current agent is \<open>Summarizer\<close>.
\<close>

theorem end_to_end_canned_replies:
  "fst (run (canned [Content ''Technical Article'',
                     Content ''AI, GPT-4, reasoning, images, education'',
                     Content ''OpenAI's new model improves reasoning and multimodal AI capabilities.''])
            fresh text) =
   Inr \<lparr>original_text = Some text,
        category = Some ''Technical Article'',
        important_terms = Some [''AI'', ''GPT-4'', ''reasoning'', ''images'', ''education''],
        summary = Some ''OpenAI's new model improves reasoning and multimodal AI capabilities.'',
        current_agent = Some ''Summarizer''\<rparr>"
proof -
  have "fst (observe
          (run (canned [Content ''Technical Article'',
                        Content ''AI, GPT-4, reasoning, images, education'',
                        Content ''OpenAI's new model improves reasoning and multimodal AI capabilities.''])
               fresh text)) =
        Inr \<lparr>original_text = Some text,
             category = Some ''Technical Article'',
             important_terms = Some [''AI'', ''GPT-4'', ''reasoning'', ''images'', ''education''],
             summary = Some ''OpenAI's new model improves reasoning and multimodal AI capabilities.'',
             current_agent = Some ''Summarizer''\<rparr>"
    by (simp add: run_unfolded unfolded_def canned_def fresh_def Let_def
        strip_Technical_Article keywords_of_second_reply strip_third_reply)
  then show ?thesis
    by (simp add: observe_def)
qed

text \<open>
  Claim C8. The summarizer parses the reply of the model by trimming whitespace and
  nothing else: whatever string the model replies, of however many words, the update
  returned sets the summary to the trimmed reply (and the current agent to
  \<open>Summarizer\<close>), and the state has that summary after the update.
\<close>

theorem summarizer_trims_only:
  assumes "category state = Some cat"
      and "important_terms state = Some terms"
      and "original_text state = Some t"
      and "llm (calls w) (summarizer_prompt cat terms t) = Content r"
  shows "fst (agent_summarizer llm w state) =
           Inr (no_keys\<lparr>summary := Some (strip r), current_agent := Some ''Summarizer''\<rparr>) \<and>
         summary (apply_update state
           (no_keys\<lparr>summary := Some (strip r), current_agent := Some ''Summarizer''\<rparr>)) =
           Some (strip r)"
  using assms by (simp add: agent_summarizer_def Let_def print_out_def apply_update_def)

text \<open>A reply of seventeen words becomes the summary.\<close>

theorem summarizer_trims_only_witness:
  "category \<lparr>original_text = Some ''text'', category = Some ''News'',
             important_terms = Some [''a'', ''b''], summary = None,
             current_agent = Some ''Keywords''\<rparr> = Some ''News'' \<and>
   fst (agent_summarizer
          (canned [Content '' OpenAI has launched a new version of its language model that improves reasoning, creativity and multimodal processing.\<newline>''])
          fresh
          \<lparr>original_text = Some ''text'', category = Some ''News'',
           important_terms = Some [''a'', ''b''], summary = None,
           current_agent = Some ''Keywords''\<rparr>) =
     Inr (no_keys\<lparr>summary := Some ''OpenAI has launched a new version of its language model that improves reasoning, creativity and multimodal processing.'',
                  current_agent := Some ''Summarizer''\<rparr>) \<and>
   word_count ''OpenAI has launched a new version of its language model that improves reasoning, creativity and multimodal processing.'' = 17"
proof -
  let ?r = "'' OpenAI has launched a new version of its language model that improves reasoning, creativity and multimodal processing.\<newline>''"
  let ?st = "\<lparr>original_text = Some ''text'', category = Some ''News'',
              important_terms = Some [''a'', ''b''], summary = None,
              current_agent = Some ''Keywords''\<rparr>"
  have a: "category ?st = Some ''News''" "important_terms ?st = Some [''a'', ''b'']"
    "original_text ?st = Some ''text''"
    by simp_all
  have b: "canned [Content ?r] (calls fresh) (summarizer_prompt ''News'' [''a'', ''b''] ''text'') =
             Content ?r"
    by (simp add: canned_def fresh_def)
  have c: "strip ?r = ''OpenAI has launched a new version of its language model that improves reasoning, creativity and multimodal processing.''"
    by (simp add: strip_def isspace_def)
  have d: "word_count ''OpenAI has launched a new version of its language model that improves reasoning, creativity and multimodal processing.'' = 17"
    by (simp add: word_count_def isspace_def)
  from summarizer_trims_only
         [where llm = "canned [Content ?r]" and w = fresh and state = ?st
            and cat = "''News''" and terms = "[''a'', ''b'']" and t = "''text''" and r = ?r,
          OF a b]
  have "fst (agent_summarizer (canned [Content ?r]) fresh ?st) =
          Inr (no_keys\<lparr>summary := Some (strip ?r), current_agent := Some ''Summarizer''\<rparr>)"
    by (rule conjunct1)
  with a(1) c d show ?thesis
    by simp
qed

text \<open>
  Claim C9, as the code has it. \<^verbatim>\<open>os.makedirs\<close> having returned, when rendering the graph
  image, opening its file or writing it raises an exception of class \<^verbatim>\<open>Exception\<close>,
  \<^const>\<open>save_graph_visualization\<close> catches it, prints the report of line 73 with the
  exception after the print of line 65, and returns \<^verbatim>\<open>None\<close>. \<^const>\<open>test_agents_team\<close>
  then goes on: it returns or raises what invoking the team on the sample text returns or
  raises, with the same calls of the model client and the same steps; the classifier is
  run, and the stages after it as far as the model client answers; and the console shows
  the report and then the classifier at work. An exception raised there that is not of
  class \<^verbatim>\<open>Exception\<close> is not caught: it leaves \<^const>\<open>save_graph_visualization\<close> and
  \<^const>\<open>test_agents_team\<close>, and no stage is run.
\<close>

theorem export_failure_does_not_abort_run:
  assumes "makedirs e = None"
      and "export_raises e (fst (create_agents_team llm w)) err"
  shows "(is_Exception err \<longrightarrow>
            fst (save_graph_visualization e (fst (create_agents_team llm w)) filename w') =
              Inr None \<and>
            console (snd (save_graph_visualization e (fst (create_agents_team llm w))
                            filename w')) =
              console w' @ [Print 65 [], PrintError 73 err] \<and>
            observe (test_agents_team e llm w) =
              observe (invoke (fst (create_agents_team llm w)) w
                         (no_keys\<lparr>original_text := Some sample_text,
                                  current_agent := Some ''Starting''\<rparr>)) \<and>
            (map fst (new_steps w (test_agents_team e llm w)) = [''classifier''] \<or>
             map fst (new_steps w (test_agents_team e llm w)) =
               [''classifier'', ''keyword_agent''] \<or>
             map fst (new_steps w (test_agents_team e llm w)) =
               [''classifier'', ''keyword_agent'', ''summarizer'']) \<and>
            (\<exists>rest. console (snd (test_agents_team e llm w)) =
               console w @
               [Print 246 [], Print 247 [], Print 248 [], Print 216 [], Print 234 [],
                Print 65 [], PrintError 73 err,
                Print 266 [], Print 267 [strip sample_text], Print 268 [], Print 269 [],
                Print 102 [], Print 103 []] @ rest)) \<and>
         (\<not> is_Exception err \<longrightarrow>
            fst (save_graph_visualization e (fst (create_agents_team llm w)) filename w') =
              Inl err \<and>
            fst (test_agents_team e llm w) = Inl err \<and>
            new_steps w (test_agents_team e llm w) = [])"
proof (intro conjI impI)
  assume x: "is_Exception err"
  note c = save_graph_visualization_caught [OF assms(1) x assms(2), of filename w']
  note t = test_agents_team_after_caught [OF assms(1) x assms(2)]
  show "fst (save_graph_visualization e (fst (create_agents_team llm w)) filename w') = Inr None"
    using c by blast
  show "console (snd (save_graph_visualization e (fst (create_agents_team llm w)) filename w')) =
          console w' @ [Print 65 [], PrintError 73 err]"
    using c by blast
  show o: "observe (test_agents_team e llm w) =
          observe (invoke (fst (create_agents_team llm w)) w
                     (no_keys\<lparr>original_text := Some sample_text,
                              current_agent := Some ''Starting''\<rparr>))"
    using t by blast
  show "map fst (new_steps w (test_agents_team e llm w)) = [''classifier''] \<or>
        map fst (new_steps w (test_agents_team e llm w)) = [''classifier'', ''keyword_agent''] \<or>
        map fst (new_steps w (test_agents_team e llm w)) =
          [''classifier'', ''keyword_agent'', ''summarizer'']"
    by (rule test_agents_team_steps [OF o])
  show "\<exists>rest. console (snd (test_agents_team e llm w)) =
               console w @
               [Print 246 [], Print 247 [], Print 248 [], Print 216 [], Print 234 [],
                Print 65 [], PrintError 73 err,
                Print 266 [], Print 267 [strip sample_text], Print 268 [], Print 269 [],
                Print 102 [], Print 103 []] @ rest"
    using t by blast
next
  assume x: "\<not> is_Exception err"
  show "fst (save_graph_visualization e (fst (create_agents_team llm w)) filename w') = Inl err"
    using save_graph_visualization_escapes [OF assms(1) x assms(2), of filename w'] by blast
  show "fst (test_agents_team e llm w) = Inl err"
    using test_agents_team_after_escape [OF assms(1) x assms(2)] by blast
  show "new_steps w (test_agents_team e llm w) = []"
    using test_agents_team_after_escape [OF assms(1) x assms(2)] by blast
qed

text \<open>
  A renderer that raises an exception of class \<^verbatim>\<open>Exception\<close>: the three stages run and the
  record is returned. A write interrupted from the keyboard: no stage is run.
\<close>

theorem export_failure_does_not_abort_run_witness:
  "makedirs \<lparr>OUTPUT_DIR = ''outputs'', makedirs = None,
             draw_mermaid_png = (\<lambda>g. Inl (Failure ''no renderer'')),
             open_file = None, write_file = None\<rparr> = None \<and>
   is_Exception (Failure ''no renderer'') \<and>
   fst (save_graph_visualization
     \<lparr>OUTPUT_DIR = ''outputs'', makedirs = None,
      draw_mermaid_png = (\<lambda>g. Inl (Failure ''no renderer'')),
      open_file = None, write_file = None\<rparr>
     (fst (create_agents_team (canned [Content ''News'', Content ''a, b'', Content ''short''])
             fresh))
     ''agents_workflow.png'' fresh) = Inr None \<and>
   console (snd (save_graph_visualization
     \<lparr>OUTPUT_DIR = ''outputs'', makedirs = None,
      draw_mermaid_png = (\<lambda>g. Inl (Failure ''no renderer'')),
      open_file = None, write_file = None\<rparr>
     (fst (create_agents_team (canned [Content ''News'', Content ''a, b'', Content ''short''])
             fresh))
     ''agents_workflow.png'' fresh)) = [Print 65 [], PrintError 73 (Failure ''no renderer'')] \<and>
   fst (test_agents_team
     \<lparr>OUTPUT_DIR = ''outputs'', makedirs = None,
      draw_mermaid_png = (\<lambda>g. Inl (Failure ''no renderer'')),
      open_file = None, write_file = None\<rparr>
     (canned [Content ''News'', Content ''a, b'', Content ''short'']) fresh) =
     Inr \<lparr>original_text = Some sample_text, category = Some ''News'',
          important_terms = Some [''a'', ''b''], summary = Some ''short'',
          current_agent = Some ''Summarizer''\<rparr> \<and>
   map fst (new_steps fresh (test_agents_team
     \<lparr>OUTPUT_DIR = ''outputs'', makedirs = None,
      draw_mermaid_png = (\<lambda>g. Inl (Failure ''no renderer'')),
      open_file = None, write_file = None\<rparr>
     (canned [Content ''News'', Content ''a, b'', Content ''short'']) fresh)) =
     [''classifier'', ''keyword_agent'', ''summarizer''] \<and>
   \<not> is_Exception (Interrupt ''KeyboardInterrupt'') \<and>
   fst (test_agents_team
     \<lparr>OUTPUT_DIR = ''outputs'', makedirs = None,
      draw_mermaid_png = (\<lambda>g. Inr ''png''),
      open_file = None, write_file = Some (Interrupt ''KeyboardInterrupt'', ''p'')\<rparr>
     (canned [Content ''News'', Content ''a, b'', Content ''short'']) fresh) =
     Inl (Interrupt ''KeyboardInterrupt'') \<and>
   new_steps fresh (test_agents_team
     \<lparr>OUTPUT_DIR = ''outputs'', makedirs = None,
      draw_mermaid_png = (\<lambda>g. Inr ''png''),
      open_file = None, write_file = Some (Interrupt ''KeyboardInterrupt'', ''p'')\<rparr>
     (canned [Content ''News'', Content ''a, b'', Content ''short'']) fresh) = []"
proof -
  let ?e = "\<lparr>OUTPUT_DIR = ''outputs'', makedirs = None,
             draw_mermaid_png = (\<lambda>g. Inl (Failure ''no renderer'')),
             open_file = None, write_file = None\<rparr>"
  let ?k = "\<lparr>OUTPUT_DIR = ''outputs'', makedirs = None,
             draw_mermaid_png = (\<lambda>g. Inr ''png''),
             open_file = None, write_file = Some (Interrupt ''KeyboardInterrupt'', ''p'')\<rparr>"
  let ?llm = "canned [Content ''News'', Content ''a, b'', Content ''short'']"
  let ?I = "no_keys\<lparr>original_text := Some sample_text, current_agent := Some ''Starting''\<rparr>"
  have h1: "makedirs ?e = None" "makedirs ?k = None"
    by simp_all
  have h2: "export_raises ?e (fst (create_agents_team ?llm fresh)) (Failure ''no renderer'')"
    by (simp add: export_raises_def)
  have h3: "export_raises ?k (fst (create_agents_team ?llm fresh)) (Interrupt ''KeyboardInterrupt'')"
    by (simp add: export_raises_def)
  have x: "is_Exception (Failure ''no renderer'')" "\<not> is_Exception (Interrupt ''KeyboardInterrupt'')"
    by (simp_all add: is_Exception_def)
  note caught = export_failure_does_not_abort_run
                  [OF h1(1) h2, of "''agents_workflow.png''" fresh, THEN conjunct1, rule_format,
                   OF x(1)]
  note escaped = export_failure_does_not_abort_run
                   [OF h1(2) h3, of "''agents_workflow.png''" fresh, THEN conjunct2, rule_format,
                    OF x(2)]
  have s: "strip ''News'' = ''News''" "strip ''short'' = ''short''"
    "map strip (str_split (CHR '','') (strip ''a, b'')) = [''a'', ''b'']"
    by (simp_all add: strip_def isspace_def)
  have I: "original_text ?I = Some sample_text"
    by (simp add: no_keys_def)
  have "observe (invoke (fst (create_agents_team ?llm fresh)) fresh ?I) =
     (Inr \<lparr>original_text = Some sample_text, category = Some ''News'',
           important_terms = Some [''a'', ''b''], summary = Some ''short'',
           current_agent = Some ''Summarizer''\<rparr>,
      calls fresh @ [classifier_prompt sample_text, keywords_prompt ''News'' sample_text,
                     summarizer_prompt ''News'' [''a'', ''b''] sample_text],
      steps fresh @
        [(''classifier'',
          Inr (no_keys\<lparr>category := Some ''News'', current_agent := Some ''Classifier''\<rparr>)),
         (''keyword_agent'',
          Inr (no_keys\<lparr>important_terms := Some [''a'', ''b''],
                        current_agent := Some ''Keywords''\<rparr>)),
         (''summarizer'',
          Inr (no_keys\<lparr>summary := Some ''short'', current_agent := Some ''Summarizer''\<rparr>))])"
    by (simp add: invoke_team [OF I] unfolded_def Let_def canned_def fresh_def s)
  with caught [THEN conjunct2, THEN conjunct2, THEN conjunct1]
  have "observe (test_agents_team ?e ?llm fresh) =
     (Inr \<lparr>original_text = Some sample_text, category = Some ''News'',
           important_terms = Some [''a'', ''b''], summary = Some ''short'',
           current_agent = Some ''Summarizer''\<rparr>,
      calls fresh @ [classifier_prompt sample_text, keywords_prompt ''News'' sample_text,
                     summarizer_prompt ''News'' [''a'', ''b''] sample_text],
      steps fresh @
        [(''classifier'',
          Inr (no_keys\<lparr>category := Some ''News'', current_agent := Some ''Classifier''\<rparr>)),
         (''keyword_agent'',
          Inr (no_keys\<lparr>important_terms := Some [''a'', ''b''],
                        current_agent := Some ''Keywords''\<rparr>)),
         (''summarizer'',
          Inr (no_keys\<lparr>summary := Some ''short'', current_agent := Some ''Summarizer''\<rparr>))])"
    by (simp only:)
  note run = observed_parts(1,3) [OF this]
  have c: "console fresh = []"
    by (simp add: fresh_def)
  from caught [THEN conjunct1] caught [THEN conjunct2, THEN conjunct1] run
    escaped [THEN conjunct2] h1(1) x c
  show ?thesis
    by simp
qed

text \<open>
  The claim as the specification states it fails: an interrupt from the keyboard while
  the image is rendered is not caught, and a failure of \<^verbatim>\<open>os.makedirs\<close>, which is called
  before the \<^verbatim>\<open>try\<close> statement, is not caught either; both leave \<^const>\<open>test_agents_team\<close>
  before any stage is run.
\<close>

theorem export_aborts_run_counterexample:
  "fst (save_graph_visualization
     \<lparr>OUTPUT_DIR = ''outputs'', makedirs = None,
      draw_mermaid_png = (\<lambda>g. Inl (Interrupt ''KeyboardInterrupt'')),
      open_file = None, write_file = None\<rparr>
     (fst (create_agents_team (canned [Content ''News'', Content ''a, b'', Content ''short''])
             fresh))
     ''agents_workflow.png'' fresh) = Inl (Interrupt ''KeyboardInterrupt'') \<and>
   fst (test_agents_team
     \<lparr>OUTPUT_DIR = ''outputs'', makedirs = None,
      draw_mermaid_png = (\<lambda>g. Inl (Interrupt ''KeyboardInterrupt'')),
      open_file = None, write_file = None\<rparr>
     (canned [Content ''News'', Content ''a, b'', Content ''short'']) fresh) =
     Inl (Interrupt ''KeyboardInterrupt'') \<and>
   new_steps fresh (test_agents_team
     \<lparr>OUTPUT_DIR = ''outputs'', makedirs = None,
      draw_mermaid_png = (\<lambda>g. Inl (Interrupt ''KeyboardInterrupt'')),
      open_file = None, write_file = None\<rparr>
     (canned [Content ''News'', Content ''a, b'', Content ''short'']) fresh) = [] \<and>
   fst (test_agents_team
     \<lparr>OUTPUT_DIR = ''outputs'', makedirs = Some (Failure ''read-only file system''),
      draw_mermaid_png = (\<lambda>g. Inr ''png''), open_file = None, write_file = None\<rparr>
     (canned [Content ''News'', Content ''a, b'', Content ''short'']) fresh) =
     Inl (Failure ''read-only file system'') \<and>
   new_steps fresh (test_agents_team
     \<lparr>OUTPUT_DIR = ''outputs'', makedirs = Some (Failure ''read-only file system''),
      draw_mermaid_png = (\<lambda>g. Inr ''png''), open_file = None, write_file = None\<rparr>
     (canned [Content ''News'', Content ''a, b'', Content ''short'']) fresh) = []"
proof -
  let ?k = "\<lparr>OUTPUT_DIR = ''outputs'', makedirs = None,
             draw_mermaid_png = (\<lambda>g. Inl (Interrupt ''KeyboardInterrupt'')),
             open_file = None, write_file = None\<rparr>"
  let ?m = "\<lparr>OUTPUT_DIR = ''outputs'', makedirs = Some (Failure ''read-only file system''),
             draw_mermaid_png = (\<lambda>g. Inr ''png''), open_file = None, write_file = None\<rparr>"
  let ?llm = "canned [Content ''News'', Content ''a, b'', Content ''short'']"
  have h1: "makedirs ?k = None"
    by simp
  have h2: "\<not> is_Exception (Interrupt ''KeyboardInterrupt'')"
    by (simp add: is_Exception_def)
  have h3: "export_raises ?k (fst (create_agents_team ?llm fresh)) (Interrupt ''KeyboardInterrupt'')"
    by (simp add: export_raises_def)
  have h4: "makedirs ?m = Some (Failure ''read-only file system'')"
    by simp
  from save_graph_visualization_escapes [OF h1 h2 h3, of "''agents_workflow.png''" fresh]
    test_agents_team_after_escape [OF h1 h2 h3]
    makedirs_failure_propagates [OF h4, of ?llm fresh]
  show ?thesis
    by blast
qed

text \<open>
  Claim C10. Frame property of the stages. Whenever a stage returns an update, the
  update holds exactly two keys, the stage's own output field and \<open>current_agent\<close>:
  \<open>category\<close> for the classifier, \<open>important_terms\<close> for the keyword extractor,
  \<open>summary\<close> for the summarizer. So the state after the update has the same
  \<open>original_text\<close> and the same values of the other two output fields as before.
\<close>

theorem stages_write_only_their_own_field:
  "(fst (agent_classifier llm w state) = Inr upd \<longrightarrow>
      keys upd = [''category'', ''current_agent''] \<and>
      original_text (apply_update state upd) = original_text state \<and>
      important_terms (apply_update state upd) = important_terms state \<and>
      summary (apply_update state upd) = summary state) \<and>
   (fst (agent_keywords llm w state) = Inr upd \<longrightarrow>
      keys upd = [''important_terms'', ''current_agent''] \<and>
      original_text (apply_update state upd) = original_text state \<and>
      category (apply_update state upd) = category state \<and>
      summary (apply_update state upd) = summary state) \<and>
   (fst (agent_summarizer llm w state) = Inr upd \<longrightarrow>
      keys upd = [''summary'', ''current_agent''] \<and>
      original_text (apply_update state upd) = original_text state \<and>
      category (apply_update state upd) = category state \<and>
      important_terms (apply_update state upd) = important_terms state)"
proof -
  have c: "keys upd = [''category'', ''current_agent''] \<and>
      original_text (apply_update state upd) = original_text state \<and>
      important_terms (apply_update state upd) = important_terms state \<and>
      summary (apply_update state upd) = summary state"
    if "fst (agent_classifier llm w state) = Inr upd"
    using classifier_update [OF that] by (auto simp: keys_def apply_update_def no_keys_def)
  have k: "keys upd = [''important_terms'', ''current_agent''] \<and>
      original_text (apply_update state upd) = original_text state \<and>
      category (apply_update state upd) = category state \<and>
      summary (apply_update state upd) = summary state"
    if "fst (agent_keywords llm w state) = Inr upd"
    using keywords_update [OF that] by (auto simp: keys_def apply_update_def no_keys_def)
  have s: "keys upd = [''summary'', ''current_agent''] \<and>
      original_text (apply_update state upd) = original_text state \<and>
      category (apply_update state upd) = category state \<and>
      important_terms (apply_update state upd) = important_terms state"
    if "fst (agent_summarizer llm w state) = Inr upd"
    using summarizer_update [OF that] by (auto simp: keys_def apply_update_def no_keys_def)
  from c k s show ?thesis by blast
qed

text \<open>One call of each stage, each on the state the stage before has left.\<close>

theorem stages_write_only_their_own_field_witness:
  "fst (agent_classifier (canned [Content ''News'']) fresh
          \<lparr>original_text = Some ''text'', category = None, important_terms = None,
           summary = None, current_agent = None\<rparr>) =
     Inr \<lparr>original_text = None, category = Some ''News'', important_terms = None,
          summary = None, current_agent = Some ''Classifier''\<rparr> \<and>
   keys \<lparr>original_text = None, category = Some ''News'', important_terms = None,
         summary = None, current_agent = Some ''Classifier''\<rparr> =
     [''category'', ''current_agent''] \<and>
   fst (agent_keywords (canned [Content ''a, b'']) fresh
          \<lparr>original_text = Some ''text'', category = Some ''News'', important_terms = None,
           summary = None, current_agent = Some ''Classifier''\<rparr>) =
     Inr \<lparr>original_text = None, category = None, important_terms = Some [''a'', ''b''],
          summary = None, current_agent = Some ''Keywords''\<rparr> \<and>
   category (apply_update
     \<lparr>original_text = Some ''text'', category = Some ''News'', important_terms = None,
      summary = None, current_agent = Some ''Classifier''\<rparr>
     \<lparr>original_text = None, category = None, important_terms = Some [''a'', ''b''],
      summary = None, current_agent = Some ''Keywords''\<rparr>) = Some ''News'' \<and>
   fst (agent_summarizer (canned [Content ''short'']) fresh
          \<lparr>original_text = Some ''text'', category = Some ''News'',
           important_terms = Some [''a'', ''b''], summary = None,
           current_agent = Some ''Keywords''\<rparr>) =
     Inr \<lparr>original_text = None, category = None, important_terms = None,
          summary = Some ''short'', current_agent = Some ''Summarizer''\<rparr> \<and>
   important_terms (apply_update
     \<lparr>original_text = Some ''text'', category = Some ''News'',
      important_terms = Some [''a'', ''b''], summary = None,
      current_agent = Some ''Keywords''\<rparr>
     \<lparr>original_text = None, category = None, important_terms = None,
      summary = Some ''short'', current_agent = Some ''Summarizer''\<rparr>) = Some [''a'', ''b'']"
proof -
  let ?s0 = "\<lparr>original_text = Some ''text'', category = None, important_terms = None,
              summary = None, current_agent = None\<rparr>"
  let ?u1 = "\<lparr>original_text = None, category = Some ''News'', important_terms = None,
              summary = None, current_agent = Some ''Classifier''\<rparr>"
  let ?s1 = "\<lparr>original_text = Some ''text'', category = Some ''News'', important_terms = None,
              summary = None, current_agent = Some ''Classifier''\<rparr>"
  let ?u2 = "\<lparr>original_text = None, category = None, important_terms = Some [''a'', ''b''],
              summary = None, current_agent = Some ''Keywords''\<rparr>"
  let ?s2 = "\<lparr>original_text = Some ''text'', category = Some ''News'',
              important_terms = Some [''a'', ''b''], summary = None,
              current_agent = Some ''Keywords''\<rparr>"
  let ?u3 = "\<lparr>original_text = None, category = None, important_terms = None,
              summary = Some ''short'', current_agent = Some ''Summarizer''\<rparr>"
  have h1: "fst (agent_classifier (canned [Content ''News'']) fresh ?s0) = Inr ?u1"
    by (simp add: agent_classifier_def Let_def print_out_def canned_def fresh_def no_keys_def
        strip_def isspace_def)
  have h2: "fst (agent_keywords (canned [Content ''a, b'']) fresh ?s1) = Inr ?u2"
    by (simp add: agent_keywords_def Let_def print_out_def canned_def fresh_def no_keys_def
        strip_def isspace_def)
  have h3: "fst (agent_summarizer (canned [Content ''short'']) fresh ?s2) = Inr ?u3"
    by (simp add: agent_summarizer_def Let_def print_out_def canned_def fresh_def no_keys_def
        strip_def isspace_def)
  from stages_write_only_their_own_field
         [where llm = "canned [Content ''News'']" and w = fresh and state = ?s0 and upd = ?u1] h1
  have a: "keys ?u1 = [''category'', ''current_agent'']"
    by blast
  from stages_write_only_their_own_field
         [where llm = "canned [Content ''a, b'']" and w = fresh and state = ?s1 and upd = ?u2] h2
  have b: "category (apply_update ?s1 ?u2) = Some ''News''"
    by simp
  from stages_write_only_their_own_field
         [where llm = "canned [Content ''short'']" and w = fresh and state = ?s2 and upd = ?u3] h3
  have c: "important_terms (apply_update ?s2 ?u3) = Some [''a'', ''b'']"
    by simp
  from h1 a h2 b h3 c show ?thesis
    by blast
qed

end
